theory Spec2Isabelle
  imports Complex_Main "HOL-Library.Product_Lexorder"
begin

section \<open>Data model of the monthly performance table\<close>

text \<open>
  The development follows \<^verbatim>\<open>src/pages/monthly-performance.tsx\<close>. A JavaScript
  \<^verbatim>\<open>number\<close> that holds a currency amount or a statistic is modelled as a real
  number: sums and differences are exact, and the not-a-number value is a separate case
  wherever the source tests for it. A \<^verbatim>\<open>Date\<close> is modelled by its calendar fields
  in the local time zone (year, month 0..11, day, milliseconds since midnight); the
  comparison of two dates is the lexicographic comparison of these fields, which is the
  comparison of the time stamps.
\<close>

record jsdate =
  d_year :: int
  d_month :: int
  d_day :: int
  d_ms :: int

definition stamp :: "jsdate \<Rightarrow> int \<times> int \<times> int \<times> int" where
  "stamp d = (d_year d, d_month d, d_day d, d_ms d)"

text \<open>\<^verbatim>\<open>new Date(year, monthIndex, day)\<close>: local midnight; a month index outside 0..11
  carries into the year, as the constructor of JavaScript does.\<close>

definition mkDate :: "int \<Rightarrow> int \<Rightarrow> int \<Rightarrow> jsdate" where
  "mkDate y m d = \<lparr>d_year = y + m div 12, d_month = m mod 12, d_day = d, d_ms = 0\<rparr>"

text \<open>The fields of a trade that the table reads. A missing date, and a missing
  \<^verbatim>\<open>stockMove\<close>, \<^verbatim>\<open>rewardRisk\<close> or \<^verbatim>\<open>holdingDays\<close>, is \<open>None\<close>.\<close>

record Trade =
  t_date :: "jsdate option"
  plRs :: real
  stockMove :: "real option"
  rewardRisk :: "real option"
  holdingDays :: "real option"

datatype change_type = deposit | withdrawal

record CapitalChangeInput =
  amount :: real
  ctype :: change_type
  date :: jsdate
  description :: string

record CapitalChange = CapitalChangeInput +
  c_id :: string

text \<open>One entry of \<^verbatim>\<open>monthlyCapital\<close>, as the hook \<^verbatim>\<open>useCapitalChanges\<close> hands it to
  the table.\<close>

record MonthlyCapital =
  mc_month :: string
  mc_year :: int
  mc_startingCapital :: real
  mc_deposits :: real
  mc_withdrawals :: real
  mc_pl :: real
  mc_finalCapital :: real

text \<open>A table cell that holds either a number or the marker \<^verbatim>\<open>'-'\<close>.\<close>

datatype cell = Num real | Dash

text \<open>A row of the table (\<^verbatim>\<open>MonthlyData\<close>). The fields \<open>startingCapital\<close>,
  \<open>addedWithdrawn\<close> and \<open>finalCapital\<close> receive a number on every path of the
  source, so they are reals here and the \<^verbatim>\<open>typeof ... === 'number'\<close> tests on them
  are always true.\<close>

record MonthlyData =
  month :: string
  addedWithdrawn :: real
  startingCapital :: real
  pl :: cell
  plPercentage :: cell
  finalCapital :: real
  yearPlPercentage :: string
  trades :: cell
  winPercentage :: cell
  avgGain :: cell
  avgLoss :: cell
  avgRR :: cell
  biggestImpact :: real
  smallestLoss :: real
  avgHoldingDays :: cell
  cagr :: real
  rollingReturn1M :: real
  rollingReturn3M :: real
  rollingReturn6M :: real
  rollingReturn12M :: real

text \<open>Everything one render pass of the component reads: the trade list, the hook's
  \<^verbatim>\<open>monthlyCapital\<close> and \<^verbatim>\<open>capitalChanges\<close>, the portfolio-size lookup, the state
  variables \<^verbatim>\<open>yearlyStartingCapital\<close> and \<^verbatim>\<open>selectedYear\<close>, the locale's short month
  name (\<^verbatim>\<open>toLocaleString('default', { month: 'short' })\<close>) and the clock
  (\<^verbatim>\<open>new Date()\<close>).\<close>

record env =
  tradeList :: "Trade list"
  monthlyCapital :: "MonthlyCapital list"
  capitalChanges :: "CapitalChange list"
  getPortfolioSize :: "string \<Rightarrow> int \<Rightarrow> real"
  yearlyStartingCapital :: real
  selectedYear :: int
  localeMonth :: "int \<Rightarrow> string"
  now :: jsdate

record monthEntry =
  me_trades :: "Trade list"
  me_date :: jsdate

section \<open>Helpers of the JavaScript runtime\<close>

text \<open>\<^verbatim>\<open>Array.prototype.indexOf\<close>: the first position, or -1.\<close>

fun indexOf :: "'a list \<Rightarrow> 'a \<Rightarrow> int" where
  "indexOf [] x = - 1"
| "indexOf (y # ys) x =
     (if y = x then 0 else (let r = indexOf ys x in if r = - 1 then - 1 else r + 1))"

text \<open>\<^verbatim>\<open>xs[i]\<close>: \<^verbatim>\<open>undefined\<close> outside the array.\<close>

definition js_nth :: "'a list \<Rightarrow> int \<Rightarrow> 'a option" where
  "js_nth xs i = (if 0 \<le> i \<and> i < int (length xs) then Some (xs ! nat i) else None)"

text \<open>\<^verbatim>\<open>x || 0\<close> on an optional number.\<close>

definition orZero :: "real option \<Rightarrow> real" where
  "orZero x = (case x of None \<Rightarrow> 0 | Some v \<Rightarrow> v)"

definition monthOrder :: "string list" where
  "monthOrder = [''Jan'', ''Feb'', ''Mar'', ''Apr'', ''May'', ''Jun'',
                 ''Jul'', ''Aug'', ''Sep'', ''Oct'', ''Nov'', ''Dec'']"

text \<open>The signed contribution of a capital change.\<close>

definition signedAmount :: "CapitalChange \<Rightarrow> real" where
  "signedAmount change = (if ctype change = deposit then amount change else - amount change)"

section \<open>Grouping the trades of the selected year by month\<close>

definition tradeYear :: "Trade \<Rightarrow> int" where
  "tradeYear t = (case t_date t of None \<Rightarrow> 0 | Some d \<Rightarrow> d_year d)"

definition filteredTrades :: "env \<Rightarrow> Trade list" where
  "filteredTrades e =
     filter (\<lambda>t. t_date t \<noteq> None \<and> tradeYear t = selectedYear e) (tradeList e)"

text \<open>One pass of the \<^verbatim>\<open>forEach\<close> that fills \<^verbatim>\<open>monthlyMap\<close>.\<close>

definition groupStep ::
  "env \<Rightarrow> (string \<rightharpoonup> monthEntry) \<Rightarrow> Trade \<Rightarrow> (string \<rightharpoonup> monthEntry)" where
  "groupStep e m t =
     (case t_date t of
        None \<Rightarrow> m
      | Some d \<Rightarrow>
          (let k = localeMonth e (d_month d) in
           case m k of
             None \<Rightarrow> m(k \<mapsto> \<lparr>me_trades = [t], me_date = d\<rparr>)
           | Some md \<Rightarrow> m(k \<mapsto> md\<lparr>me_trades := me_trades md @ [t]\<rparr>)))"

definition tradeStamp :: "Trade \<Rightarrow> int \<times> int \<times> int \<times> int" where
  "tradeStamp t = (case t_date t of None \<Rightarrow> (0, 0, 0, 0) | Some d \<Rightarrow> stamp d)"

text \<open>The map after grouping and after the (stable) sort of every month's trades by
  date.\<close>

definition monthlyMap :: "env \<Rightarrow> (string \<rightharpoonup> monthEntry)" where
  "monthlyMap e k =
     map_option (\<lambda>md. md\<lparr>me_trades := sort_key tradeStamp (me_trades md)\<rparr>)
       (foldl (groupStep e) Map.empty (filteredTrades e) k)"

text \<open>The key under which a dated trade is filed: the locale's short name of its month.\<close>

definition tradeMonthName :: "env \<Rightarrow> Trade \<Rightarrow> string" where
  "tradeMonthName e t = (case t_date t of None \<Rightarrow> [] | Some d \<Rightarrow> localeMonth e (d_month d))"

definition filteredMonthlyCapital :: "env \<Rightarrow> MonthlyCapital list" where
  "filteredMonthlyCapital e = filter (\<lambda>mc. mc_year mc = selectedYear e) (monthlyCapital e)"

section \<open>The rows before the returns are computed\<close>

definition emptyMonthCapital :: "string \<Rightarrow> int \<Rightarrow> MonthlyCapital" where
  "emptyMonthCapital m y =
     \<lparr>mc_month = m, mc_year = y, mc_startingCapital = 0, mc_deposits = 0,
      mc_withdrawals = 0, mc_pl = 0, mc_finalCapital = 0\<rparr>"

definition monthTradesOf :: "env \<Rightarrow> string \<Rightarrow> Trade list" where
  "monthTradesOf e m =
     me_trades (case monthlyMap e m of
                  Some md \<Rightarrow> md
                | None \<Rightarrow> \<lparr>me_trades = [], me_date = now e\<rparr>)"

definition monthCapitalOf :: "env \<Rightarrow> string \<Rightarrow> MonthlyCapital" where
  "monthCapitalOf e m =
     (case find (\<lambda>mc. mc_month mc = m) (filteredMonthlyCapital e) of
        Some mc \<Rightarrow> mc
      | None \<Rightarrow> emptyMonthCapital m (selectedYear e))"

definition monthCapitalChanges :: "env \<Rightarrow> string \<Rightarrow> CapitalChange list" where
  "monthCapitalChanges e m =
     filter (\<lambda>change. d_month (date change) = indexOf monthOrder m
                     \<and> d_year (date change) = selectedYear e) (capitalChanges e)"

definition netAddedWithdrawn :: "env \<Rightarrow> string \<Rightarrow> real" where
  "netAddedWithdrawn e m =
     (let changes = monthCapitalChanges e m;
          monthCapital = monthCapitalOf e m;
          net = foldl (\<lambda>net change. net + signedAmount change) 0 changes
      in if length changes = 0
         then mc_deposits monthCapital - mc_withdrawals monthCapital
         else net)"

definition initialRow :: "env \<Rightarrow> string \<Rightarrow> MonthlyData" where
  "initialRow e m =
     (let monthTrades = monthTradesOf e m;
          tradesCount = length monthTrades;
          winTrades = filter (\<lambda>t. plRs t > 0) monthTrades;
          lossTrades = filter (\<lambda>t. plRs t < 0) monthTrades;
          winPct = (if tradesCount > 0
                    then real (length winTrades) / real tradesCount * 100 else 0);
          avgGainV = (if length winTrades > 0
                      then foldl (\<lambda>s t. s + orZero (stockMove t)) 0 winTrades
                           / real (length winTrades) else 0);
          avgLossV = (if length lossTrades > 0
                      then foldl (\<lambda>s t. s + orZero (stockMove t)) 0 lossTrades
                           / real (length lossTrades) else 0);
          avgRRV = (if tradesCount > 0
                    then foldl (\<lambda>s t. s + orZero (rewardRisk t)) 0 monthTrades
                         / real tradesCount else 0);
          avgHoldingDaysV = (if tradesCount > 0
                             then foldl (\<lambda>s t. s + orZero (holdingDays t)) 0 monthTrades
                                  / real tradesCount else 0);
          monthCapital = monthCapitalOf e m;
          adjustedStartingCapital =
            (if mc_startingCapital monthCapital \<noteq> 0 then mc_startingCapital monthCapital
             else getPortfolioSize e m (selectedYear e))
      in \<lparr>month = m,
          addedWithdrawn = netAddedWithdrawn e m,
          startingCapital = adjustedStartingCapital,
          pl = (if tradesCount > 0 then Num (mc_pl monthCapital) else Dash),
          plPercentage = (if tradesCount > 0 then Num 0 else Dash),
          finalCapital = (if tradesCount > 0 then mc_finalCapital monthCapital else 0),
          yearPlPercentage = [],
          trades = (if tradesCount > 0 then Num (real tradesCount) else Dash),
          winPercentage = (if tradesCount > 0 then Num winPct else Dash),
          avgGain = (if tradesCount > 0 then Num avgGainV else Dash),
          avgLoss = (if tradesCount > 0 then Num avgLossV else Dash),
          avgRR = (if tradesCount > 0 then Num avgRRV else Dash),
          biggestImpact = 0,
          smallestLoss = 0,
          avgHoldingDays = (if tradesCount > 0 then Num avgHoldingDaysV else Dash),
          cagr = 0,
          rollingReturn1M = 0,
          rollingReturn3M = 0,
          rollingReturn6M = 0,
          rollingReturn12M = 0\<rparr>)"

definition initialMonthlyData :: "env \<Rightarrow> MonthlyData list" where
  "initialMonthlyData e = map (initialRow e) monthOrder"

section \<open>The rows with their annualised returns\<close>

text \<open>An event handed to the solver: a date and a signed amount.\<close>

record CashFlow =
  cf_date :: jsdate
  cf_amount :: real

text \<open>The solver \<^verbatim>\<open>calcXIRR\<close> is imported from \<^verbatim>\<open>utils/tradeCalculations\<close>, which is
  not among the sources; the table is modelled for an arbitrary solver, passed as the
  first argument.\<close>

type_synonym solver = "jsdate \<Rightarrow> real \<Rightarrow> jsdate \<Rightarrow> real \<Rightarrow> CashFlow list \<Rightarrow> real"

definition relevantChanges :: "env \<Rightarrow> jsdate \<Rightarrow> CashFlow list" where
  "relevantChanges e currentDate =
     map (\<lambda>change. \<lparr>cf_date = date change, cf_amount = signedAmount change\<rparr>)
       (filter (\<lambda>change. stamp (date change) \<le> stamp currentDate) (capitalChanges e))"

text \<open>One of the four rolling returns of row \<open>i\<close>, which the source writes out four
  times: \<open>lo\<close> is the bound of its test on \<open>i\<close> (\<^verbatim>\<open>i > 0\<close>, \<^verbatim>\<open>i >= 2\<close>, \<^verbatim>\<open>i >= 5\<close>,
  \<^verbatim>\<open>i >= 11\<close>) and \<open>k\<close> the window (1, 3, 6, 12); the row \<^verbatim>\<open>initialMonthlyData[i-k]\<close>
  must exist.\<close>

definition rollingXirr ::
  "solver \<Rightarrow> int \<Rightarrow> int \<Rightarrow> jsdate \<Rightarrow> real \<Rightarrow> CashFlow list \<Rightarrow> MonthlyData list
     \<Rightarrow> int \<Rightarrow> int \<Rightarrow> int \<Rightarrow> real" where
  "rollingXirr calcXIRR currentYear monthIndex currentDate finalCap rel init i lo k =
     (if i \<ge> lo then
        (case js_nth init (i - k) of
           None \<Rightarrow> 0
         | Some prevRow \<Rightarrow>
             (let prevMonth = mkDate currentYear (monthIndex - k) 1
              in calcXIRR prevMonth (finalCapital prevRow) currentDate finalCap
                   (filter (\<lambda>c. stamp (cf_date c) \<ge> stamp prevMonth) rel)))
      else 0)"

definition computedRow :: "solver \<Rightarrow> env \<Rightarrow> MonthlyData list \<Rightarrow> int \<Rightarrow> MonthlyData \<Rightarrow> MonthlyData" where
  "computedRow calcXIRR e init i row =
     (let currentYear = selectedYear e;
          startingCap = startingCapital row;
          finalCap = finalCapital row;
          monthIndex = indexOf monthOrder (month row);
          currentDate = mkDate currentYear monthIndex 1;
          rel = relevantChanges e currentDate;
          startOfYear = mkDate currentYear 0 1;
          xirrYTD = (if startingCap \<noteq> 0
                     then calcXIRR startOfYear (yearlyStartingCapital e) currentDate finalCap rel
                     else 0);
          xirr1M = rollingXirr calcXIRR currentYear monthIndex currentDate finalCap rel init i 1 1;
          xirr3M = rollingXirr calcXIRR currentYear monthIndex currentDate finalCap rel init i 2 3;
          xirr6M = rollingXirr calcXIRR currentYear monthIndex currentDate finalCap rel init i 5 6;
          xirr12M = rollingXirr calcXIRR currentYear monthIndex currentDate finalCap rel init i 11 12
      in row\<lparr>plPercentage :=
               (case pl row of
                  Num p \<Rightarrow> (if startingCap \<noteq> 0 then Num (p / startingCap * 100) else Dash)
                | Dash \<Rightarrow> Dash),
             cagr := xirrYTD,
             rollingReturn1M := xirr1M,
             rollingReturn3M := xirr3M,
             rollingReturn6M := xirr6M,
             rollingReturn12M := xirr12M\<rparr>)"

definition computedData :: "solver \<Rightarrow> env \<Rightarrow> MonthlyData list" where
  "computedData calcXIRR e =
     (let init = initialMonthlyData e
      in map (\<lambda>(i, row). computedRow calcXIRR e init (int i) row) (enumerate 0 init))"

text \<open>The rolling return of a row for a window of \<open>k\<close> months, \<open>k\<close> one of 1, 3, 6
  and 12.\<close>

definition rollingReturn :: "nat \<Rightarrow> MonthlyData \<Rightarrow> real" where
  "rollingReturn k row =
     (if k = 1 then rollingReturn1M row
      else if k = 3 then rollingReturn3M row
      else if k = 6 then rollingReturn6M row
      else rollingReturn12M row)"

section \<open>Saving an edited net change\<close>

text \<open>The calls the handler makes on its collaborators, in the order it makes them:
  \<^verbatim>\<open>setPortfolioSize(value, month, year)\<close>, \<^verbatim>\<open>updateCapitalChange(change)\<close>,
  \<^verbatim>\<open>addCapitalChange(change)\<close> and \<^verbatim>\<open>deleteCapitalChange(id)\<close>.\<close>

datatype effect =
    SetPortfolioSize real string int
  | UpdateCapitalChange CapitalChange
  | AddCapitalChange CapitalChangeInput
  | DeleteCapitalChange string

text \<open>How a call of the handler ends: a silent return (the typed text is not a number,
  or the month is unknown), the \<^verbatim>\<open>TypeError\<close> of reading a row that does not exist, the
  alert that asks for a starting capital, or the calls made on the collaborators. The
  editing cell and the editing text, which every path resets, belong to the view and are
  left out.\<close>

datatype outcome = Ignored | Threw | Rejected string | Saved "effect list"

definition startingCapitalAlert :: string where
  "startingCapitalAlert =
     ''Please set the Starting Capital before adding/withdrawing funds.''
     @ [CHR 0x0A, CHR 0x0A]
     @ ''Click on the Starting Capital field first to set it.''"

definition manualEdit :: string where
  "manualEdit = ''Manual edit from performance table''"

definition inMonth :: "int \<Rightarrow> int \<Rightarrow> CapitalChange \<Rightarrow> bool" where
  "inMonth year monthIndex change =
     (d_year (date change) = year \<and> d_month (date change) = monthIndex)"

text \<open>\<^verbatim>\<open>handleSaveAddedWithdrawn(rowIndex, month, year)\<close>, with the parsed editing text
  as \<open>editingValue\<close> (\<open>None\<close> when \<^verbatim>\<open>Number(editingValue)\<close> is not a number). The
  handler reads the rows, the capital changes, the portfolio-size lookup and the selected
  year of the render pass it was created in. The third branch of the source's
  \<^verbatim>\<open>if (existingChange) ... else if (value !== 0) ... else if (value === 0 && existingChange)\<close>
  is kept where the source has it.\<close>

definition handleSaveAddedWithdrawn ::
  "solver \<Rightarrow> env \<Rightarrow> real option \<Rightarrow> int \<Rightarrow> string \<Rightarrow> int \<Rightarrow> outcome" where
  "handleSaveAddedWithdrawn calcXIRR e editingValue rowIndex m yearArg =
     (case editingValue of
        None \<Rightarrow> Ignored
      | Some v \<Rightarrow>
          (let monthIndex = indexOf monthOrder m in
           if monthIndex = - 1 then Ignored
           else
             (let year = selectedYear e in
              case js_nth (computedData calcXIRR e) rowIndex of
                None \<Rightarrow> Threw
              | Some monthData \<Rightarrow>
                  if startingCapital monthData \<le> 0 then Rejected startingCapitalAlert
                  else
                    (let monthDate = mkDate year monthIndex 1;
                         existingChange = find (inMonth year monthIndex) (capitalChanges e);
                         currentPortfolioSize = getPortfolioSize e m year
                     in case existingChange of
                          Some ex \<Rightarrow>
                            (let oldAmount = signedAmount ex;
                                 difference = v - oldAmount
                             in Saved
                                  [SetPortfolioSize (currentPortfolioSize + difference) m year,
                                   UpdateCapitalChange
                                     (ex\<lparr>amount := \<bar>v\<bar>,
                                         ctype := (if v \<ge> 0 then deposit else withdrawal),
                                         date := monthDate,
                                         description := manualEdit\<rparr>)])
                        | None \<Rightarrow>
                            if v \<noteq> 0 then
                              Saved
                                [SetPortfolioSize (currentPortfolioSize + v) m year,
                                 AddCapitalChange
                                   \<lparr>amount = \<bar>v\<bar>,
                                    ctype = (if v \<ge> 0 then deposit else withdrawal),
                                    date = monthDate,
                                    description = manualEdit\<rparr>]
                            else
                              (case existingChange of
                                 Some ex \<Rightarrow>
                                   Saved
                                     [SetPortfolioSize
                                        (currentPortfolioSize - signedAmount ex) m year,
                                      DeleteCapitalChange (c_id ex)]
                               | None \<Rightarrow> Saved [])))))"

section \<open>The ledger behind the table\<close>

text \<open>Modelled from the spec: the hook \<^verbatim>\<open>use-capital-changes\<close> and the
  \<^verbatim>\<open>PortfolioContext\<close> are not among the sources. The capital-change store is the list
  of its records: \<open>add\<close> appends a record under a new identifier, \<open>update\<close> replaces the
  record with the same identifier and does nothing when there is none, \<open>remove\<close> deletes
  it. The portfolio sizes are one amount per month and year: a lookup returns the amount
  last set for that month and year.\<close>

record ledger =
  store :: "CapitalChange list"
  sizes :: "string \<Rightarrow> int \<Rightarrow> real"

definition addCapitalChange ::
  "(CapitalChange list \<Rightarrow> string) \<Rightarrow> CapitalChangeInput \<Rightarrow> CapitalChange list \<Rightarrow> CapitalChange list" where
  "addCapitalChange newId c cs =
     cs @ [\<lparr>amount = amount c, ctype = ctype c, date = date c,
            description = description c, c_id = newId cs\<rparr>]"

definition updateCapitalChange :: "CapitalChange \<Rightarrow> CapitalChange list \<Rightarrow> CapitalChange list" where
  "updateCapitalChange c cs = map (\<lambda>x. if c_id x = c_id c then c else x) cs"

definition deleteCapitalChange :: "string \<Rightarrow> CapitalChange list \<Rightarrow> CapitalChange list" where
  "deleteCapitalChange i cs = filter (\<lambda>x. c_id x \<noteq> i) cs"

definition setPortfolioSize ::
  "real \<Rightarrow> string \<Rightarrow> int \<Rightarrow> (string \<Rightarrow> int \<Rightarrow> real) \<Rightarrow> (string \<Rightarrow> int \<Rightarrow> real)" where
  "setPortfolioSize v m y f = f(m := (f m)(y := v))"

fun applyEffect :: "(CapitalChange list \<Rightarrow> string) \<Rightarrow> ledger \<Rightarrow> effect \<Rightarrow> ledger" where
  "applyEffect newId s (SetPortfolioSize v m y) = s\<lparr>sizes := setPortfolioSize v m y (sizes s)\<rparr>"
| "applyEffect newId s (UpdateCapitalChange c) = s\<lparr>store := updateCapitalChange c (store s)\<rparr>"
| "applyEffect newId s (AddCapitalChange c) = s\<lparr>store := addCapitalChange newId c (store s)\<rparr>"
| "applyEffect newId s (DeleteCapitalChange i) = s\<lparr>store := deleteCapitalChange i (store s)\<rparr>"

text \<open>What stays the same while the user edits: the trades, the selected year, the locale
  and the clock, and the functions of the absent collaborators that the table calls on
  every render pass: \<open>s_hook\<close> for the \<^verbatim>\<open>monthlyCapital\<close> that the hook derives from the
  ledger, \<open>s_latest\<close> for \<^verbatim>\<open>getLatestPortfolioSize()\<close>, which takes no month and no
  year, and \<open>s_newId\<close> for the identifier given to an added record. They are arbitrary
  functions of the ledger. A render pass reads the state \<^verbatim>\<open>yearlyStartingCapital\<close>, which
  the component initialises with \<^verbatim>\<open>getLatestPortfolioSize()\<close> and sets to it again whenever
  it changes.\<close>

record session =
  s_trades :: "Trade list"
  s_year :: int
  s_locale :: "int \<Rightarrow> string"
  s_now :: jsdate
  s_hook :: "ledger \<Rightarrow> MonthlyCapital list"
  s_latest :: "ledger \<Rightarrow> real"
  s_newId :: "CapitalChange list \<Rightarrow> string"

definition render :: "session \<Rightarrow> ledger \<Rightarrow> env" where
  "render ss s =
     \<lparr>tradeList = s_trades ss,
      monthlyCapital = s_hook ss s,
      capitalChanges = store s,
      getPortfolioSize = sizes s,
      yearlyStartingCapital = s_latest ss s,
      selectedYear = s_year ss,
      localeMonth = s_locale ss,
      now = s_now ss\<rparr>"

text \<open>The edit \<open>setNetChange(month, year, value)\<close> of the spec: the handler is called on
  the row of the month in the table of the selected year, and the calls it makes are
  carried out on the ledger.\<close>

definition setNetChange :: "solver \<Rightarrow> session \<Rightarrow> ledger \<Rightarrow> string \<Rightarrow> real \<Rightarrow> ledger" where
  "setNetChange calcXIRR ss s m v =
     (case handleSaveAddedWithdrawn calcXIRR (render ss s) (Some v)
             (indexOf monthOrder m) m (s_year ss) of
        Saved effs \<Rightarrow> foldl (applyEffect (s_newId ss)) s effs
      | _ \<Rightarrow> s)"

section \<open>The event lists of a return window\<close>

text \<open>The capital changes dated from \<open>start\<close> on, as signed events, and those dated
  from \<open>start\<close> up to \<open>end\<close>.\<close>

definition toCashFlow :: "CapitalChange \<Rightarrow> CashFlow" where
  "toCashFlow change = \<lparr>cf_date = date change, cf_amount = signedAmount change\<rparr>"

definition flowsFrom :: "env \<Rightarrow> jsdate \<Rightarrow> CashFlow list" where
  "flowsFrom e start =
     map toCashFlow (filter (\<lambda>change. stamp start \<le> stamp (date change)) (capitalChanges e))"

definition flowsUpTo :: "env \<Rightarrow> jsdate \<Rightarrow> CashFlow list" where
  "flowsUpTo e end =
     map toCashFlow (filter (\<lambda>change. stamp (date change) \<le> stamp end) (capitalChanges e))"

definition windowFlows :: "env \<Rightarrow> jsdate \<Rightarrow> jsdate \<Rightarrow> CashFlow list" where
  "windowFlows e start end =
     map toCashFlow
       (filter (\<lambda>change. stamp start \<le> stamp (date change) \<and> stamp (date change) \<le> stamp end)
          (capitalChanges e))"

text \<open>The number in a cell, with 0 for the marker.\<close>

definition cellNumber :: "cell \<Rightarrow> real" where
  "cellNumber c = (case c of Num x \<Rightarrow> x | Dash \<Rightarrow> 0)"

section \<open>The solver of the specification\<close>

text \<open>Modelled from the spec: \<^verbatim>\<open>calcXIRR\<close> of \<^verbatim>\<open>utils/tradeCalculations\<close> is not among
  the sources. A series is a list of events, each a day offset from the start of the
  series and a signed amount. The solver looks for the rate at which the net present
  value is zero by Newton's iteration from an initial guess; it stops when the absolute
  value of the net present value is below the tolerance or when the iterations are used
  up, and then accepts the last estimate only under a relaxed tolerance. It answers 0
  when all amounts have one sign, when a boundary amount is zero, when the derivative is
  below a floor, when the rate falls to -1 or below, and when it did not converge. The
  numbers are reals; the guess, the tolerances, the number of iterations and the floor
  are parameters.\<close>

type_synonym series = "(real \<times> real) list"

definition npv :: "series \<Rightarrow> real \<Rightarrow> real" where
  "npv cf r = sum_list (map (\<lambda>(days, a). a / (1 + r) powr (days / 365)) cf)"

definition npvDerivative :: "series \<Rightarrow> real \<Rightarrow> real" where
  "npvDerivative cf r =
     sum_list (map (\<lambda>(days, a). - (days / 365) * a / (1 + r) powr (days / 365 + 1)) cf)"

record solverParams =
  guess :: real
  tolerance :: real
  relaxedTolerance :: real
  maxIterations :: nat
  derivativeFloor :: real

fun newton :: "solverParams \<Rightarrow> series \<Rightarrow> nat \<Rightarrow> real \<Rightarrow> real" where
  "newton p cf 0 r =
     (if r \<le> - 1 then 0
      else if \<bar>npv cf r\<bar> < tolerance p then r
      else if \<bar>npv cf r\<bar> < relaxedTolerance p then r
      else 0)"
| "newton p cf (Suc n) r =
     (if r \<le> - 1 then 0
      else if \<bar>npv cf r\<bar> < tolerance p then r
      else if \<bar>npvDerivative cf r\<bar> < derivativeFloor p then 0
      else newton p cf n (r - npv cf r / npvDerivative cf r))"

definition XIRRSolver :: "solverParams \<Rightarrow> series \<Rightarrow> real" where
  "XIRRSolver p cf =
     (if list_all (\<lambda>(days, a). 0 \<le> a) cf \<or> list_all (\<lambda>(days, a). a \<le> 0) cf then 0
      else if snd (hd cf) = 0 \<or> snd (last cf) = 0 then 0
      else newton p cf (maxIterations p) (guess p))"

text \<open>The parameters the specification names as examples (guess 0.1, tolerance 1e-6,
  100 iterations); it gives no value for the relaxed tolerance and for the floor, and the
  two chosen here matter to no statement below.\<close>

definition specParams :: solverParams where
  "specParams =
     \<lparr>guess = 1 / 10, tolerance = 1 / 1000000, relaxedTolerance = 1 / 1000,
      maxIterations = 100, derivativeFloor = 1 / 10000000000\<rparr>"

definition twoEvents :: series where
  "twoEvents = [(0, - 1000), (365, 1100)]"

definition allPositive :: series where
  "allPositive = [(0, 1000), (365, 1100)]"

section \<open>Concrete inputs\<close>

text \<open>An English locale, one closed trade on 15 January 2024 with a profit of 500, the
  ledger records of January and February 2024, and a portfolio size of 10000 for every
  month.\<close>

definition enUS :: "int \<Rightarrow> string" where
  "enUS i = (case js_nth monthOrder i of Some name \<Rightarrow> name | None \<Rightarrow> [])"

definition janTrade :: Trade where
  "janTrade =
     \<lparr>t_date = Some \<lparr>d_year = 2024, d_month = 0, d_day = 15, d_ms = 0\<rparr>, plRs = 500,
      stockMove = Some 5, rewardRisk = Some 2, holdingDays = Some 3\<rparr>"

definition janRecord :: MonthlyCapital where
  "janRecord =
     \<lparr>mc_month = ''Jan'', mc_year = 2024, mc_startingCapital = 10000, mc_deposits = 0,
      mc_withdrawals = 0, mc_pl = 500, mc_finalCapital = 10500\<rparr>"

definition febRecord :: MonthlyCapital where
  "febRecord =
     \<lparr>mc_month = ''Feb'', mc_year = 2024, mc_startingCapital = 10500, mc_deposits = 0,
      mc_withdrawals = 0, mc_pl = 0, mc_finalCapital = 10500\<rparr>"

definition decemberDeposit :: CapitalChange where
  "decemberDeposit =
     \<lparr>amount = 1000, ctype = deposit,
      date = \<lparr>d_year = 2024, d_month = 11, d_day = 1, d_ms = 0\<rparr>,
      description = manualEdit, c_id = ''c1''\<rparr>"

definition exampleEnv :: env where
  "exampleEnv =
     \<lparr>tradeList = [janTrade],
      monthlyCapital = [janRecord, febRecord],
      capitalChanges = [decemberDeposit],
      getPortfolioSize = (\<lambda>m y. 10000),
      yearlyStartingCapital = 10000,
      selectedYear = 2024,
      localeMonth = enUS,
      now = \<lparr>d_year = 2026, d_month = 10, d_day = 1, d_ms = 0\<rparr>\<rparr>"

text \<open>A stand-in for the solver that answers the number of events it is given, so that
  the event list of a call shows in the result.\<close>

definition countFlows :: solver where
  "countFlows startDate startValue endDate endValue flows = real (length flows)"

definition exampleNewId :: "CapitalChange list \<Rightarrow> string" where
  "exampleNewId cs = ''c'' @ replicate (length cs) (CHR ''+'')"

definition exampleSession :: session where
  "exampleSession =
     \<lparr>s_trades = [janTrade],
      s_year = 2024,
      s_locale = enUS,
      s_now = \<lparr>d_year = 2026, d_month = 10, d_day = 1, d_ms = 0\<rparr>,
      s_hook = (\<lambda>s. []),
      s_latest = (\<lambda>s. sizes s ''Jan'' 2024),
      s_newId = exampleNewId\<rparr>"

definition exampleLedger :: ledger where
  "exampleLedger = \<lparr>store = [], sizes = (\<lambda>m y. 10000)\<rparr>"

text \<open>The record that an edit of January 2024 to 500 adds to the empty store.\<close>

definition jan500 :: CapitalChange where
  "jan500 =
     \<lparr>amount = 500, ctype = deposit,
      date = \<lparr>d_year = 2024, d_month = 0, d_day = 1, d_ms = 0\<rparr>,
      description = manualEdit, c_id = ''c''\<rparr>"

definition afterFirstEdit :: ledger where
  "afterFirstEdit =
     \<lparr>store = [jan500], sizes = setPortfolioSize 10500 ''Jan'' 2024 (\<lambda>m y. 10000)\<rparr>"

definition emptyLedger :: ledger where
  "emptyLedger = \<lparr>store = [], sizes = (\<lambda>m y. 0)\<rparr>"



text \<open>One closed trade on 10 April 2024 with a profit of 700, and a ledger record of
  April that satisfies \<open>finalCapital = startingCapital + pl + deposits - withdrawals\<close>
  with a starting capital of 0.\<close>

definition aprTrade :: Trade where
  "aprTrade =
     \<lparr>t_date = Some \<lparr>d_year = 2024, d_month = 3, d_day = 10, d_ms = 0\<rparr>, plRs = 700,
      stockMove = Some 4, rewardRisk = Some 2, holdingDays = Some 6\<rparr>"

definition aprRecord :: MonthlyCapital where
  "aprRecord =
     \<lparr>mc_month = ''Apr'', mc_year = 2024, mc_startingCapital = 0, mc_deposits = 0,
      mc_withdrawals = 0, mc_pl = 700, mc_finalCapital = 700\<rparr>"

definition zeroStartEnv :: env where
  "zeroStartEnv =
     \<lparr>tradeList = [aprTrade],
      monthlyCapital = [aprRecord],
      capitalChanges = [],
      getPortfolioSize = (\<lambda>m y. 10000),
      yearlyStartingCapital = 10000,
      selectedYear = 2024,
      localeMonth = enUS,
      now = \<lparr>d_year = 2026, d_month = 10, d_day = 1, d_ms = 0\<rparr>\<rparr>"







text \<open>A stand-in for the solver that answers the start value it is given.\<close>

definition startValue :: solver where
  "startValue startDate startVal endDate endVal flows = startVal"

text \<open>A ledger whose portfolio size is 9000 for December and 10000 for every other
  month, and a session in which \<^verbatim>\<open>getLatestPortfolioSize()\<close> answers the size of
  December 2024.\<close>

definition decLedger :: ledger where
  "decLedger = \<lparr>store = [], sizes = (\<lambda>m y. if m = ''Dec'' then 9000 else 10000)\<rparr>"

definition latestSession :: session where
  "latestSession = exampleSession\<lparr>s_latest := (\<lambda>s. sizes s ''Dec'' 2024)\<rparr>"

text \<open>The parameters of the specification with the initial guess 0 in place of 0.1.\<close>

definition coldParams :: solverParams where
  "coldParams = specParams\<lparr>guess := 0\<rparr>"

section \<open>Facts about the month names and the rows\<close>

lemma length_monthOrder: "length monthOrder = 12"
  by (simp add: monthOrder_def)

lemma indexOf_names:
  "indexOf monthOrder ''Jan'' = 0" "indexOf monthOrder ''Feb'' = 1" "indexOf monthOrder ''Mar'' = 2"
  "indexOf monthOrder ''Apr'' = 3" "indexOf monthOrder ''May'' = 4" "indexOf monthOrder ''Jun'' = 5"
  "indexOf monthOrder ''Jul'' = 6" "indexOf monthOrder ''Aug'' = 7" "indexOf monthOrder ''Sep'' = 8"
  "indexOf monthOrder ''Oct'' = 9" "indexOf monthOrder ''Nov'' = 10" "indexOf monthOrder ''Dec'' = 11"
  by (simp_all add: monthOrder_def)

lemma monthOrder_nth:
  "monthOrder ! 0 = ''Jan''" "monthOrder ! 1 = ''Feb''" "monthOrder ! 2 = ''Mar''"
  "monthOrder ! 3 = ''Apr''" "monthOrder ! 4 = ''May''" "monthOrder ! 5 = ''Jun''"
  "monthOrder ! 6 = ''Jul''" "monthOrder ! 7 = ''Aug''" "monthOrder ! 8 = ''Sep''"
  "monthOrder ! 9 = ''Oct''" "monthOrder ! 10 = ''Nov''" "monthOrder ! 11 = ''Dec''"
  "monthOrder ! Suc 0 = ''Feb''"
  by (simp_all add: monthOrder_def)

lemma below_twelve:
  "i < 12 \<Longrightarrow> i = 0 \<or> i = 1 \<or> i = 2 \<or> i = 3 \<or> i = 4 \<or> i = 5 \<or> i = 6 \<or> i = 7
      \<or> i = 8 \<or> i = 9 \<or> i = 10 \<or> i = (11::nat)"
  by arith

lemma indexOf_monthOrder: "i < 12 \<Longrightarrow> indexOf monthOrder (monthOrder ! i) = int i"
  by (drule below_twelve) (elim disjE; simp only: monthOrder_nth indexOf_names; simp)

lemma indexOf_absent: "x \<notin> set xs \<Longrightarrow> indexOf xs x = - 1"
  by (induction xs) (auto simp: Let_def)

lemma indexOf_bounds: "x \<in> set xs \<Longrightarrow> 0 \<le> indexOf xs x \<and> indexOf xs x < int (length xs)"
  by (induction xs) (auto simp: Let_def)

lemma indexOf_monthOrder_bounds:
  "m \<in> set monthOrder \<Longrightarrow> 0 \<le> indexOf monthOrder m \<and> indexOf monthOrder m < 12"
  using indexOf_bounds [of m monthOrder] by (simp add: length_monthOrder)

lemma mkDate_first:
  "0 \<le> i \<Longrightarrow> i < 12 \<Longrightarrow> mkDate y i 1 = \<lparr>d_year = y, d_month = i, d_day = 1, d_ms = 0\<rparr>"
  by (simp add: mkDate_def)

lemma length_initialMonthlyData: "length (initialMonthlyData e) = 12"
  by (simp add: initialMonthlyData_def length_monthOrder)

lemma initialMonthlyData_nth: "i < 12 \<Longrightarrow> initialMonthlyData e ! i = initialRow e (monthOrder ! i)"
  by (simp add: initialMonthlyData_def length_monthOrder)

lemma month_initialRow: "month (initialRow e m) = m"
  by (simp add: initialRow_def Let_def)

lemma length_computedData: "length (computedData calc e) = 12"
  by (simp add: computedData_def Let_def length_initialMonthlyData)

lemma computedData_nth:
  "i < 12 \<Longrightarrow> computedData calc e ! i =
     computedRow calc e (initialMonthlyData e) (int i) (initialRow e (monthOrder ! i))"
  by (simp add: computedData_def Let_def length_initialMonthlyData nth_enumerate_eq
        initialMonthlyData_nth)

lemma js_nth_computedData:
  "0 \<le> i \<Longrightarrow> i < 12 \<Longrightarrow> js_nth (computedData calc e) i = Some (computedData calc e ! nat i)"
  by (simp add: js_nth_def length_computedData)

text \<open>The fields that the second pass leaves as the first pass set them.\<close>

lemma computedRow_keeps:
  "startingCapital (computedRow calc e init i row) = startingCapital row"
  "finalCapital (computedRow calc e init i row) = finalCapital row"
  "addedWithdrawn (computedRow calc e init i row) = addedWithdrawn row"
  "pl (computedRow calc e init i row) = pl row"
  "trades (computedRow calc e init i row) = trades row"
  "winPercentage (computedRow calc e init i row) = winPercentage row"
  "avgGain (computedRow calc e init i row) = avgGain row"
  "avgLoss (computedRow calc e init i row) = avgLoss row"
  "avgRR (computedRow calc e init i row) = avgRR row"
  "avgHoldingDays (computedRow calc e init i row) = avgHoldingDays row"
  "month (computedRow calc e init i row) = month row"
  by (simp_all add: computedRow_def Let_def)

lemma startingCapital_initialRow:
  "startingCapital (initialRow e m) =
     (if mc_startingCapital (monthCapitalOf e m) \<noteq> 0
      then mc_startingCapital (monthCapitalOf e m)
      else getPortfolioSize e m (selectedYear e))"
  by (simp add: initialRow_def Let_def)

lemma addedWithdrawn_initialRow:
  "addedWithdrawn (initialRow e m) = netAddedWithdrawn e m"
  by (simp add: initialRow_def Let_def)

lemma netAddedWithdrawn_cases:
  "netAddedWithdrawn e m =
     (if monthCapitalChanges e m = []
      then mc_deposits (monthCapitalOf e m) - mc_withdrawals (monthCapitalOf e m)
      else foldl (\<lambda>net change. net + signedAmount change) 0 (monthCapitalChanges e m))"
  by (simp add: netAddedWithdrawn_def Let_def)

lemma zero_trades_row:
  assumes "monthTradesOf e m = []"
  shows "finalCapital (initialRow e m) = 0"
    and "trades (initialRow e m) = Dash"
    and "winPercentage (initialRow e m) = Dash"
    and "avgGain (initialRow e m) = Dash"
    and "avgLoss (initialRow e m) = Dash"
    and "avgRR (initialRow e m) = Dash"
    and "avgHoldingDays (initialRow e m) = Dash"
    and "pl (initialRow e m) = Dash"
  using assms by (simp_all add: initialRow_def Let_def)

lemma some_trades_row:
  assumes "monthTradesOf e m \<noteq> []"
  shows "finalCapital (initialRow e m) = mc_finalCapital (monthCapitalOf e m)"
    and "pl (initialRow e m) = Num (mc_pl (monthCapitalOf e m))"
  using assms by (simp_all add: initialRow_def Let_def)

lemma finalCapital_computedData:
  "j < 12 \<Longrightarrow> finalCapital (computedData calc e ! j) = finalCapital (initialRow e (monthOrder ! j))"
  by (simp add: computedData_nth computedRow_keeps)

lemma monthCapitalOf_no_records:
  "monthlyCapital e = [] \<Longrightarrow> monthCapitalOf e m = emptyMonthCapital m (selectedYear e)"
  by (simp add: monthCapitalOf_def filteredMonthlyCapital_def)

lemma render_fields:
  "capitalChanges (render ss s) = store s"
  "getPortfolioSize (render ss s) = sizes s"
  "selectedYear (render ss s) = s_year ss"
  by (simp_all add: render_def)

section \<open>The rows of the concrete inputs\<close>

lemma example_fields:
  "selectedYear exampleEnv = 2024" "yearlyStartingCapital exampleEnv = 10000"
  "getPortfolioSize exampleEnv m y = 10000"
  by (simp_all add: exampleEnv_def)

lemma monthTradesOf_example:
  "monthTradesOf exampleEnv ''Jan'' = [janTrade]"
  "monthTradesOf exampleEnv ''Feb'' = []"
  "monthTradesOf exampleEnv ''Mar'' = []"
  by (simp_all add: monthTradesOf_def monthlyMap_def filteredTrades_def exampleEnv_def
        janTrade_def tradeYear_def groupStep_def enUS_def js_nth_def monthOrder_def Let_def)

lemma monthCapitalOf_example:
  "monthCapitalOf exampleEnv ''Jan'' = janRecord"
  "monthCapitalOf exampleEnv ''Feb'' = febRecord"
  "monthCapitalOf exampleEnv ''Mar'' = emptyMonthCapital ''Mar'' 2024"
  by (simp_all add: monthCapitalOf_def filteredMonthlyCapital_def exampleEnv_def
        janRecord_def febRecord_def)

lemma monthCapitalChanges_example:
  "monthCapitalChanges exampleEnv ''Jan'' = []"
  "monthCapitalChanges exampleEnv ''Feb'' = []"
  "monthCapitalChanges exampleEnv ''Mar'' = []"
  by (simp_all add: monthCapitalChanges_def exampleEnv_def decemberDeposit_def indexOf_names)

lemma netAddedWithdrawn_example:
  "netAddedWithdrawn exampleEnv ''Jan'' = 0"
  "netAddedWithdrawn exampleEnv ''Feb'' = 0"
  "netAddedWithdrawn exampleEnv ''Mar'' = 0"
  by (simp_all add: netAddedWithdrawn_def monthCapitalChanges_example monthCapitalOf_example
        janRecord_def febRecord_def emptyMonthCapital_def)

lemma example_rows:
  "startingCapital (computedData calc exampleEnv ! 0) = 10000"
  "finalCapital (computedData calc exampleEnv ! 0) = 10500"
  "startingCapital (computedData calc exampleEnv ! 1) = 10500"
  "finalCapital (computedData calc exampleEnv ! 1) = 0"
  "startingCapital (computedData calc exampleEnv ! 2) = 10000"
  "finalCapital (computedData calc exampleEnv ! 2) = 0"
  "pl (computedData calc exampleEnv ! 2) = Dash"
  "addedWithdrawn (computedData calc exampleEnv ! 2) = 0"
  by (simp_all add: computedData_nth computedRow_keeps monthOrder_nth startingCapital_initialRow
        zero_trades_row some_trades_row addedWithdrawn_initialRow
        monthTradesOf_example monthCapitalOf_example netAddedWithdrawn_example
        janRecord_def febRecord_def emptyMonthCapital_def example_fields)

lemma flows_example:
  "flowsUpTo exampleEnv (mkDate 2024 0 1) = []"
  "windowFlows exampleEnv (mkDate 2024 0 1) (mkDate 2024 1 1) = []"
  "flowsFrom exampleEnv (mkDate 2024 0 1) = [toCashFlow decemberDeposit]"
  by (simp_all add: flowsUpTo_def windowFlows_def flowsFrom_def exampleEnv_def decemberDeposit_def
        mkDate_def stamp_def)

section \<open>The final capital of a row\<close>

lemma groupStep_other:
  "t_date t \<noteq> None \<Longrightarrow> tradeMonthName e t \<noteq> k \<Longrightarrow> groupStep e m t k = m k"
  by (auto simp: groupStep_def tradeMonthName_def Let_def split: option.splits)

lemma groupStep_same:
  "t_date t \<noteq> None \<Longrightarrow> tradeMonthName e t = k \<Longrightarrow>
     map_option me_trades (groupStep e m t k)
       = Some ((case m k of None \<Rightarrow> [] | Some md \<Rightarrow> me_trades md) @ [t])"
  by (auto simp: groupStep_def tradeMonthName_def Let_def split: option.splits)

lemma foldl_groupStep_trades:
  assumes "\<forall>t \<in> set ts. t_date t \<noteq> None"
  shows "(case foldl (groupStep e) m ts k of None \<Rightarrow> [] | Some md \<Rightarrow> me_trades md)
           = (case m k of None \<Rightarrow> [] | Some md \<Rightarrow> me_trades md)
             @ filter (\<lambda>t. tradeMonthName e t = k) ts"
  using assms
proof (induction ts arbitrary: m)
  case Nil
  then show ?case by simp
next
  case (Cons t ts)
  have d: "t_date t \<noteq> None" and rest: "\<forall>t \<in> set ts. t_date t \<noteq> None"
    using Cons.prems by auto
  show ?case
  proof (cases "tradeMonthName e t = k")
    case True
    have "(case groupStep e m t k of None \<Rightarrow> [] | Some md \<Rightarrow> me_trades md)
            = (case m k of None \<Rightarrow> [] | Some md \<Rightarrow> me_trades md) @ [t]"
      using groupStep_same [OF d True, of m] by (auto split: option.splits)
    then show ?thesis using Cons.IH [OF rest, of "groupStep e m t"] True by simp
  next
    case False
    then show ?thesis
      using Cons.IH [OF rest, of "groupStep e m t"] groupStep_other [OF d False, of m] by simp
  qed
qed

text \<open>The trades of a row are the dated trades of the selected year whose month the
  locale names as the row is named, in the order of their dates.\<close>

lemma monthTradesOf_grouping:
  "monthTradesOf e m
     = sort_key tradeStamp (filter (\<lambda>t. tradeMonthName e t = m) (filteredTrades e))"
proof -
  have a: "\<forall>t \<in> set (filteredTrades e). t_date t \<noteq> None"
    by (simp add: filteredTrades_def)
  have "(case foldl (groupStep e) Map.empty (filteredTrades e) m of
           None \<Rightarrow> [] | Some md \<Rightarrow> me_trades md)
        = filter (\<lambda>t. tradeMonthName e t = m) (filteredTrades e)"
    using foldl_groupStep_trades [OF a, of e Map.empty m] by simp
  then show ?thesis
    by (auto simp: monthTradesOf_def monthlyMap_def split: option.splits)
qed

lemma final_capital_aux:
  assumes "i < 12" "m = monthOrder ! i" "row = computedData calc e ! i" "mc = monthCapitalOf e m"
  shows "monthTradesOf e m
           = sort_key tradeStamp (filter (\<lambda>t. tradeMonthName e t = m) (filteredTrades e))
       \<and> (monthTradesOf e m \<noteq> [] \<longrightarrow>
             finalCapital row = mc_finalCapital mc \<and> pl row = Num (mc_pl mc))
       \<and> (monthTradesOf e m = [] \<longrightarrow> finalCapital row = 0 \<and> pl row = Dash)
       \<and> startingCapital row
           = (if mc_startingCapital mc \<noteq> 0 then mc_startingCapital mc
              else getPortfolioSize e m (selectedYear e))
       \<and> addedWithdrawn row
           = (if monthCapitalChanges e m = [] then mc_deposits mc - mc_withdrawals mc
              else foldl (\<lambda>net change. net + signedAmount change) 0 (monthCapitalChanges e m))
       \<and> (monthTradesOf e m \<noteq> [] \<longrightarrow>
             (finalCapital row = startingCapital row + cellNumber (pl row) + addedWithdrawn row
              \<longleftrightarrow> mc_finalCapital mc = startingCapital row + mc_pl mc + addedWithdrawn row))"
proof -
  have r: "finalCapital row = finalCapital (initialRow e m)"
      "startingCapital row = startingCapital (initialRow e m)"
      "pl row = pl (initialRow e m)"
      "addedWithdrawn row = addedWithdrawn (initialRow e m)"
    using assms by (simp_all add: computedData_nth computedRow_keeps)
  have g: "monthTradesOf e m
           = sort_key tradeStamp (filter (\<lambda>t. tradeMonthName e t = m) (filteredTrades e))"
    by (rule monthTradesOf_grouping)
  have rest: "(monthTradesOf e m \<noteq> [] \<longrightarrow>
             finalCapital row = mc_finalCapital mc \<and> pl row = Num (mc_pl mc))
       \<and> (monthTradesOf e m = [] \<longrightarrow> finalCapital row = 0 \<and> pl row = Dash)
       \<and> startingCapital row
           = (if mc_startingCapital mc \<noteq> 0 then mc_startingCapital mc
              else getPortfolioSize e m (selectedYear e))
       \<and> addedWithdrawn row
           = (if monthCapitalChanges e m = [] then mc_deposits mc - mc_withdrawals mc
              else foldl (\<lambda>net change. net + signedAmount change) 0 (monthCapitalChanges e m))
       \<and> (monthTradesOf e m \<noteq> [] \<longrightarrow>
             (finalCapital row = startingCapital row + cellNumber (pl row) + addedWithdrawn row
              \<longleftrightarrow> mc_finalCapital mc = startingCapital row + mc_pl mc + addedWithdrawn row))"
    unfolding r assms(4)
    by (auto simp: some_trades_row zero_trades_row startingCapital_initialRow
          addedWithdrawn_initialRow netAddedWithdrawn_cases cellNumber_def)
  from g rest show ?thesis by blast
qed

lemma zeroStart_facts:
  "monthTradesOf zeroStartEnv ''Apr'' = [aprTrade]"
  "monthCapitalOf zeroStartEnv ''Apr'' = aprRecord"
  "monthCapitalChanges zeroStartEnv ''Apr'' = []"
  "getPortfolioSize zeroStartEnv m y = 10000"
  by (simp_all add: monthTradesOf_grouping tradeMonthName_def filteredTrades_def tradeYear_def
        monthCapitalOf_def filteredMonthlyCapital_def monthCapitalChanges_def
        zeroStartEnv_def aprTrade_def aprRecord_def enUS_def js_nth_def monthOrder_def)

lemma zeroStart_row:
  "finalCapital (computedData calc zeroStartEnv ! 3) = 700"
  "startingCapital (computedData calc zeroStartEnv ! 3) = 10000"
  "pl (computedData calc zeroStartEnv ! 3) = Num 700"
  "addedWithdrawn (computedData calc zeroStartEnv ! 3) = 0"
  by (simp_all add: computedData_nth computedRow_keeps monthOrder_nth startingCapital_initialRow
        some_trades_row addedWithdrawn_initialRow netAddedWithdrawn_cases zeroStart_facts
        aprRecord_def)

text \<open>
  Claim C1, as the code has it, over exact arithmetic. The row of month \<open>i\<close> of the
  selected year has the trades of the year whose month the locale names as the row is
  named. When there is at least one, the final capital and the profit and loss of the row
  are those of the hook's ledger record of the month; when there is none, the final
  capital is 0 and the profit and loss is the marker. The starting capital of the row is
  the record's or, when that is 0, the portfolio-size lookup; the added and withdrawn
  amount is the net of the month's capital changes or, when there are none, the record's
  \<open>deposits - withdrawals\<close>. So for a month with trades the equation
  \<open>finalCapital = startingCapital + pl + addedWithdrawn\<close> holds for the row exactly when
  the final capital of the record is the starting capital of the row plus the record's
  profit and loss plus the added and withdrawn amount of the row.
\<close>

theorem final_capital_invariant:
  assumes "i < 12" "m = monthOrder ! i" "row = computedData calc e ! i" "mc = monthCapitalOf e m"
  shows "monthTradesOf e m
           = sort_key tradeStamp (filter (\<lambda>t. tradeMonthName e t = m) (filteredTrades e))
       \<and> (monthTradesOf e m \<noteq> [] \<longrightarrow>
             finalCapital row = mc_finalCapital mc \<and> pl row = Num (mc_pl mc))
       \<and> (monthTradesOf e m = [] \<longrightarrow> finalCapital row = 0 \<and> pl row = Dash)
       \<and> startingCapital row
           = (if mc_startingCapital mc \<noteq> 0 then mc_startingCapital mc
              else getPortfolioSize e m (selectedYear e))
       \<and> addedWithdrawn row
           = (if monthCapitalChanges e m = [] then mc_deposits mc - mc_withdrawals mc
              else foldl (\<lambda>net change. net + signedAmount change) 0 (monthCapitalChanges e m))
       \<and> (monthTradesOf e m \<noteq> [] \<longrightarrow>
             (finalCapital row = startingCapital row + cellNumber (pl row) + addedWithdrawn row
              \<longleftrightarrow> mc_finalCapital mc = startingCapital row + mc_pl mc + addedWithdrawn row))"
  using assms by (rule final_capital_aux)

text \<open>
  Claim C1, the theorem at the concrete input: January 2024 has one trade, the row shows
  the 10500 of its record, and 10500 = 10000 + 500 + 0, so the equation holds; February
  has no trade, and the row shows 0.
\<close>

theorem final_capital_invariant_witness:
  "(0::nat) < 12 \<and> monthTradesOf exampleEnv ''Jan'' \<noteq> []
   \<and> finalCapital (computedData countFlows exampleEnv ! 0) = mc_finalCapital janRecord
   \<and> finalCapital (computedData countFlows exampleEnv ! 0) = 10500
   \<and> mc_finalCapital janRecord
       = startingCapital (computedData countFlows exampleEnv ! 0) + mc_pl janRecord
         + addedWithdrawn (computedData countFlows exampleEnv ! 0)
   \<and> finalCapital (computedData countFlows exampleEnv ! 0)
       = startingCapital (computedData countFlows exampleEnv ! 0)
         + cellNumber (pl (computedData countFlows exampleEnv ! 0))
         + addedWithdrawn (computedData countFlows exampleEnv ! 0)
   \<and> (1::nat) < 12 \<and> monthTradesOf exampleEnv ''Feb'' = []
   \<and> finalCapital (computedData countFlows exampleEnv ! 1) = 0"
proof -
  have j: "mc_finalCapital janRecord = 10500" "mc_pl janRecord = 500"
    by (simp_all add: janRecord_def)
  have a0: "addedWithdrawn (computedData countFlows exampleEnv ! 0) = 0"
    by (simp add: computedData_nth computedRow_keeps monthOrder_nth addedWithdrawn_initialRow
          netAddedWithdrawn_example)
  have p1: "(0::nat) < 12" and p1': "(1::nat) < 12" by simp_all
  have p2: "''Jan'' = monthOrder ! 0" and p2': "''Feb'' = monthOrder ! 1"
    by (simp_all add: monthOrder_nth del: One_nat_def)
  have p4: "janRecord = monthCapitalOf exampleEnv ''Jan''"
    and p4': "febRecord = monthCapitalOf exampleEnv ''Feb''"
    by (simp_all add: monthCapitalOf_example)
  have n: "monthTradesOf exampleEnv ''Jan'' \<noteq> []" and z: "monthTradesOf exampleEnv ''Feb'' = []"
    by (simp_all add: monthTradesOf_example)
  note jan = final_capital_invariant [OF p1 p2 refl p4, of countFlows]
  note feb = final_capital_invariant [OF p1' p2' refl p4', of countFlows]
  have c: "mc_finalCapital janRecord
       = startingCapital (computedData countFlows exampleEnv ! 0) + mc_pl janRecord
         + addedWithdrawn (computedData countFlows exampleEnv ! 0)"
    by (simp add: j a0 example_rows)
  from jan n have a: "finalCapital (computedData countFlows exampleEnv ! 0)
      = mc_finalCapital janRecord"
    by blast
  from jan n c have a': "finalCapital (computedData countFlows exampleEnv ! 0)
           = startingCapital (computedData countFlows exampleEnv ! 0)
             + cellNumber (pl (computedData countFlows exampleEnv ! 0))
             + addedWithdrawn (computedData countFlows exampleEnv ! 0)"
    by blast
  from feb z have b: "finalCapital (computedData countFlows exampleEnv ! 1) = 0"
    by blast
  from a a' b c n z show ?thesis by (simp add: j)
qed

text \<open>
  Claim C1 as it is written fails in two ways. March 2024 of the concrete input has no
  trade, a starting capital of 10000 from the portfolio-size lookup and no added or
  withdrawn amount, and the row shows a final capital of 0, not 10000. April 2024 of the
  second input has one trade and a ledger record that satisfies the equation with a
  starting capital of 0 (700 = 0 + 700 + 0 - 0); the row copies the final capital 700
  but takes its starting capital 10000 from the portfolio-size lookup, and 700 is not
  10000 + 700 + 0.
\<close>

theorem final_capital_zero_trades_counterexample:
  "finalCapital (computedData countFlows exampleEnv ! 2)
     \<noteq> startingCapital (computedData countFlows exampleEnv ! 2)
       + cellNumber (pl (computedData countFlows exampleEnv ! 2))
       + addedWithdrawn (computedData countFlows exampleEnv ! 2)
   \<and> mc_finalCapital aprRecord
       = mc_startingCapital aprRecord + mc_pl aprRecord + mc_deposits aprRecord
         - mc_withdrawals aprRecord
   \<and> monthTradesOf zeroStartEnv ''Apr'' = [aprTrade]
   \<and> finalCapital (computedData countFlows zeroStartEnv ! 3)
     \<noteq> startingCapital (computedData countFlows zeroStartEnv ! 3)
       + cellNumber (pl (computedData countFlows zeroStartEnv ! 3))
       + addedWithdrawn (computedData countFlows zeroStartEnv ! 3)"
  by (simp add: example_rows zeroStart_row zeroStart_facts cellNumber_def aprRecord_def)

section \<open>A month without trades\<close>

lemma zero_trades_aux:
  assumes "i < 12" "monthTradesOf e (monthOrder ! i) = []"
  shows "startingCapital (computedData calc e ! i)
           = (if mc_startingCapital (monthCapitalOf e (monthOrder ! i)) \<noteq> 0
              then mc_startingCapital (monthCapitalOf e (monthOrder ! i))
              else getPortfolioSize e (monthOrder ! i) (selectedYear e))
       \<and> finalCapital (computedData calc e ! i) = 0
       \<and> trades (computedData calc e ! i) = Dash
       \<and> winPercentage (computedData calc e ! i) = Dash
       \<and> avgGain (computedData calc e ! i) = Dash
       \<and> avgLoss (computedData calc e ! i) = Dash
       \<and> avgRR (computedData calc e ! i) = Dash
       \<and> avgHoldingDays (computedData calc e ! i) = Dash"
  using assms
  by (simp add: computedData_nth computedRow_keeps zero_trades_row startingCapital_initialRow)

text \<open>
  Claim C7, as the code has it. The row of a month without trades carries the starting
  capital of the month (the ledger record's, or the portfolio-size lookup when that is
  0), its final capital is set to 0, and the trade count, the win percentage, the
  average gain, the average loss, the average reward to risk and the average holding
  days are the marker \<^verbatim>\<open>'-'\<close>, not 0.
\<close>

theorem zero_trades_row_cells:
  assumes "i < 12" "monthTradesOf e (monthOrder ! i) = []"
  shows "startingCapital (computedData calc e ! i)
           = (if mc_startingCapital (monthCapitalOf e (monthOrder ! i)) \<noteq> 0
              then mc_startingCapital (monthCapitalOf e (monthOrder ! i))
              else getPortfolioSize e (monthOrder ! i) (selectedYear e))
       \<and> finalCapital (computedData calc e ! i) = 0
       \<and> trades (computedData calc e ! i) = Dash
       \<and> winPercentage (computedData calc e ! i) = Dash
       \<and> avgGain (computedData calc e ! i) = Dash
       \<and> avgLoss (computedData calc e ! i) = Dash
       \<and> avgRR (computedData calc e ! i) = Dash
       \<and> avgHoldingDays (computedData calc e ! i) = Dash"
  using assms by (rule zero_trades_aux)

text \<open>Claim C7, the theorem at February 2024 of the concrete input.\<close>

theorem zero_trades_row_cells_witness:
  "(1::nat) < 12 \<and> monthTradesOf exampleEnv (monthOrder ! 1) = []
   \<and> startingCapital (computedData countFlows exampleEnv ! 1) = 10500
   \<and> finalCapital (computedData countFlows exampleEnv ! 1) = 0
   \<and> trades (computedData countFlows exampleEnv ! 1) = Dash
   \<and> winPercentage (computedData countFlows exampleEnv ! 1) = Dash
   \<and> avgGain (computedData countFlows exampleEnv ! 1) = Dash
   \<and> avgLoss (computedData countFlows exampleEnv ! 1) = Dash
   \<and> avgRR (computedData countFlows exampleEnv ! 1) = Dash
   \<and> avgHoldingDays (computedData countFlows exampleEnv ! 1) = Dash"
proof -
  have h: "monthTradesOf exampleEnv (monthOrder ! 1) = []"
    by (simp add: monthOrder_nth monthTradesOf_example del: One_nat_def)
  show ?thesis
    using zero_trades_row_cells [of 1 exampleEnv countFlows] h
    by (simp add: monthOrder_nth monthCapitalOf_example febRecord_def del: One_nat_def)
qed

text \<open>
  Claim C7 as it is written fails in its first half: February 2024 of the concrete
  input has no trade, its ledger record has a final capital of 10500 and the row a
  starting capital of 10500, and the final capital of the row is zeroed.
\<close>

theorem zero_trades_final_capital_counterexample:
  "monthTradesOf exampleEnv ''Feb'' = []
   \<and> finalCapital (computedData countFlows exampleEnv ! 1) = 0
   \<and> finalCapital (computedData countFlows exampleEnv ! 1)
       \<noteq> mc_finalCapital (monthCapitalOf exampleEnv ''Feb'')
   \<and> finalCapital (computedData countFlows exampleEnv ! 1)
       \<noteq> startingCapital (computedData countFlows exampleEnv ! 1)"
  by (simp add: monthTradesOf_example example_rows monthCapitalOf_example febRecord_def
        del: One_nat_def)

section \<open>The year-to-date and the rolling returns\<close>

lemma cagr_row:
  "cagr (computedRow calc e init i row) =
     (if startingCapital row \<noteq> 0
      then calc (mkDate (selectedYear e) 0 1) (yearlyStartingCapital e)
             (mkDate (selectedYear e) (indexOf monthOrder (month row)) 1) (finalCapital row)
             (relevantChanges e (mkDate (selectedYear e) (indexOf monthOrder (month row)) 1))
      else 0)"
  by (simp add: computedRow_def Let_def)

lemma rolling_row:
  "rollingReturn1M (computedRow calc e init i row) =
     rollingXirr calc (selectedYear e) (indexOf monthOrder (month row))
       (mkDate (selectedYear e) (indexOf monthOrder (month row)) 1) (finalCapital row)
       (relevantChanges e (mkDate (selectedYear e) (indexOf monthOrder (month row)) 1)) init i 1 1"
  "rollingReturn3M (computedRow calc e init i row) =
     rollingXirr calc (selectedYear e) (indexOf monthOrder (month row))
       (mkDate (selectedYear e) (indexOf monthOrder (month row)) 1) (finalCapital row)
       (relevantChanges e (mkDate (selectedYear e) (indexOf monthOrder (month row)) 1)) init i 2 3"
  "rollingReturn6M (computedRow calc e init i row) =
     rollingXirr calc (selectedYear e) (indexOf monthOrder (month row))
       (mkDate (selectedYear e) (indexOf monthOrder (month row)) 1) (finalCapital row)
       (relevantChanges e (mkDate (selectedYear e) (indexOf monthOrder (month row)) 1)) init i 5 6"
  "rollingReturn12M (computedRow calc e init i row) =
     rollingXirr calc (selectedYear e) (indexOf monthOrder (month row))
       (mkDate (selectedYear e) (indexOf monthOrder (month row)) 1) (finalCapital row)
       (relevantChanges e (mkDate (selectedYear e) (indexOf monthOrder (month row)) 1)) init i 11 12"
  by (simp_all add: computedRow_def Let_def)

lemma relevantChanges_flowsUpTo: "relevantChanges e d = flowsUpTo e d"
  by (simp add: relevantChanges_def flowsUpTo_def toCashFlow_def)

lemma filter_flowsUpTo:
  "filter (\<lambda>c. stamp (cf_date c) \<ge> stamp s) (flowsUpTo e d) = windowFlows e s d"
  by (auto simp: flowsUpTo_def windowFlows_def toCashFlow_def filter_map o_def
           intro!: arg_cong2[where f=map] filter_cong)

lemma rollingXirr_eq:
  assumes "i < 12" "k > 0" "lo \<le> k" "int k - 3 < lo"
  shows "rollingXirr calc y (int i) cur fc (flowsUpTo e cur) (initialMonthlyData e) (int i) lo (int k) =
     (if i < k then 0
      else calc (mkDate y (int i - int k) 1) (finalCapital (initialMonthlyData e ! (i - k))) cur fc
             (windowFlows e (mkDate y (int i - int k) 1) cur))"
  using assms
  by (auto simp: rollingXirr_def js_nth_def length_initialMonthlyData filter_flowsUpTo Let_def
        nat_diff_distrib')

lemma rolling_window_aux:
  assumes "i < 12" "k \<in> {1, 3, 6, 12}"
  shows "rollingReturn k (computedData calc e ! i) =
     (if i < k then 0
      else calc (mkDate (selectedYear e) (int i - int k) 1)
             (finalCapital (computedData calc e ! (i - k)))
             (mkDate (selectedYear e) (int i) 1)
             (finalCapital (computedData calc e ! i))
             (windowFlows e (mkDate (selectedYear e) (int i - int k) 1)
                (mkDate (selectedYear e) (int i) 1)))"
proof -
  let ?y = "selectedYear e"
  let ?cur = "mkDate ?y (int i) 1"
  let ?fc = "finalCapital (initialRow e (monthOrder ! i))"
  have row: "computedData calc e ! i =
     computedRow calc e (initialMonthlyData e) (int i) (initialRow e (monthOrder ! i))"
    using assms(1) by (rule computedData_nth)
  have idx: "indexOf monthOrder (month (initialRow e (monthOrder ! i))) = int i"
    using assms(1) by (simp add: month_initialRow indexOf_monthOrder)
  have cur: "finalCapital (computedData calc e ! i) = ?fc"
    using assms(1) by (simp add: finalCapital_computedData)
  have gen: "\<And>lo kk. kk > 0 \<Longrightarrow> lo \<le> kk \<Longrightarrow> int kk - 3 < int lo \<Longrightarrow>
      rollingXirr calc ?y (int i) ?cur ?fc (relevantChanges e ?cur) (initialMonthlyData e)
        (int i) (int lo) (int kk) =
      (if i < kk then 0
       else calc (mkDate ?y (int i - int kk) 1) (finalCapital (computedData calc e ! (i - kk))) ?cur
              (finalCapital (computedData calc e ! i))
              (windowFlows e (mkDate ?y (int i - int kk) 1) ?cur))"
  proof -
    fix lo kk :: nat
    assume a: "kk > 0" "lo \<le> kk" "int kk - 3 < int lo"
    have "i - kk < 12" using assms(1) by simp
    then have p: "finalCapital (computedData calc e ! (i - kk))
        = finalCapital (initialMonthlyData e ! (i - kk))"
      by (simp add: finalCapital_computedData initialMonthlyData_nth)
    show "rollingXirr calc ?y (int i) ?cur ?fc (relevantChanges e ?cur) (initialMonthlyData e)
        (int i) (int lo) (int kk) =
      (if i < kk then 0
       else calc (mkDate ?y (int i - int kk) 1) (finalCapital (computedData calc e ! (i - kk))) ?cur
              (finalCapital (computedData calc e ! i))
              (windowFlows e (mkDate ?y (int i - int kk) 1) ?cur))"
      unfolding relevantChanges_flowsUpTo p cur
      using assms(1) a by (rule rollingXirr_eq)
  qed
  from assms(2) consider "k = 1" | "k = 3" | "k = 6" | "k = 12" by auto
  then show ?thesis
  proof cases
    case 1
    have "rollingReturn k (computedData calc e ! i) =
        rollingXirr calc ?y (int i) ?cur ?fc (relevantChanges e ?cur) (initialMonthlyData e)
          (int i) (int 1) (int 1)"
      unfolding row using 1 by (simp add: rollingReturn_def rolling_row idx)
    also have "\<dots> = (if i < 1 then 0
       else calc (mkDate ?y (int i - int 1) 1) (finalCapital (computedData calc e ! (i - 1))) ?cur
              (finalCapital (computedData calc e ! i))
              (windowFlows e (mkDate ?y (int i - int 1) 1) ?cur))"
      by (rule gen) simp_all
    finally show ?thesis using 1 by simp
  next
    case 2
    have "rollingReturn k (computedData calc e ! i) =
        rollingXirr calc ?y (int i) ?cur ?fc (relevantChanges e ?cur) (initialMonthlyData e)
          (int i) (int 2) (int 3)"
      unfolding row using 2 by (simp add: rollingReturn_def rolling_row idx)
    also have "\<dots> = (if i < 3 then 0
       else calc (mkDate ?y (int i - int 3) 1) (finalCapital (computedData calc e ! (i - 3))) ?cur
              (finalCapital (computedData calc e ! i))
              (windowFlows e (mkDate ?y (int i - int 3) 1) ?cur))"
      by (rule gen) simp_all
    finally show ?thesis using 2 by simp
  next
    case 3
    have "rollingReturn k (computedData calc e ! i) =
        rollingXirr calc ?y (int i) ?cur ?fc (relevantChanges e ?cur) (initialMonthlyData e)
          (int i) (int 5) (int 6)"
      unfolding row using 3 by (simp add: rollingReturn_def rolling_row idx)
    also have "\<dots> = (if i < 6 then 0
       else calc (mkDate ?y (int i - int 6) 1) (finalCapital (computedData calc e ! (i - 6))) ?cur
              (finalCapital (computedData calc e ! i))
              (windowFlows e (mkDate ?y (int i - int 6) 1) ?cur))"
      by (rule gen) simp_all
    finally show ?thesis using 3 by simp
  next
    case 4
    have "rollingReturn k (computedData calc e ! i) =
        rollingXirr calc ?y (int i) ?cur ?fc (relevantChanges e ?cur) (initialMonthlyData e)
          (int i) (int 11) (int 12)"
      unfolding row using 4 by (simp add: rollingReturn_def rolling_row idx)
    also have "\<dots> = (if i < 12 then 0
       else calc (mkDate ?y (int i - int 12) 1) (finalCapital (computedData calc e ! (i - 12))) ?cur
              (finalCapital (computedData calc e ! i))
              (windowFlows e (mkDate ?y (int i - int 12) 1) ?cur))"
      by (rule gen) simp_all
    finally show ?thesis using 4 by simp
  qed
qed

text \<open>
  Claim C5, as the code has it. For a window of \<open>k\<close> months, \<open>k\<close> one of 1, 3, 6 and 12,
  and the row \<open>i\<close> of the twelve: the rolling return is 0 when \<open>i < k\<close> (so the
  twelve-month return is 0 in every row), and otherwise it is what the solver answers
  for the start date the first day of month \<open>i - k\<close> with the final capital of row
  \<open>i - k\<close>, the end date the first day of month \<open>i\<close> with the final capital of row \<open>i\<close>,
  and the signed capital changes dated on or after the start date and on or before the
  end date.
\<close>

theorem rolling_return_window:
  assumes "i < 12" "k \<in> {1, 3, 6, 12}"
  shows "rollingReturn k (computedData calc e ! i) =
     (if i < k then 0
      else calc (mkDate (selectedYear e) (int i - int k) 1)
             (finalCapital (computedData calc e ! (i - k)))
             (mkDate (selectedYear e) (int i) 1)
             (finalCapital (computedData calc e ! i))
             (windowFlows e (mkDate (selectedYear e) (int i - int k) 1)
                (mkDate (selectedYear e) (int i) 1)))"
  using assms by (rule rolling_window_aux)

text \<open>
  Claim C5, the theorem at the concrete input: the one-month return of February 2024
  and the twelve-month return of June 2024.
\<close>

theorem rolling_return_window_witness:
  "(1::nat) < 12 \<and> (1::nat) \<in> {1, 3, 6, 12}
   \<and> rollingReturn 1 (computedData countFlows exampleEnv ! 1)
       = countFlows (mkDate 2024 0 1) 10500 (mkDate 2024 1 1) 0 []
   \<and> (5::nat) < 12 \<and> (12::nat) \<in> {1, 3, 6, 12}
   \<and> rollingReturn 12 (computedData countFlows exampleEnv ! 5) = 0"
  using rolling_return_window [of 1 1 countFlows exampleEnv]
    rolling_return_window [of 5 12 countFlows exampleEnv]
  by (simp add: example_rows flows_example example_fields del: One_nat_def)

text \<open>
  Claim C5 as it is written fails in its event list: the deposit of the concrete input
  is dated 1 December 2024, on or after 1 January, yet it is not among the events of the
  one-month return of February, which end on 1 February. With the stand-in solver that
  counts its events the code answers 0 and the series of the claim 1.
\<close>

theorem rolling_return_later_change_counterexample:
  "rollingReturn 1 (computedData countFlows exampleEnv ! 1)
     \<noteq> countFlows (mkDate (selectedYear exampleEnv) 0 1)
          (finalCapital (computedData countFlows exampleEnv ! 0))
          (mkDate (selectedYear exampleEnv) 1 1)
          (finalCapital (computedData countFlows exampleEnv ! 1))
          (flowsFrom exampleEnv (mkDate (selectedYear exampleEnv) 0 1))"
proof -
  note y = example_fields(1)
  have "rollingReturn 1 (computedData countFlows exampleEnv ! 1) = 0"
    using rolling_window_aux [of 1 1 countFlows exampleEnv]
    by (simp add: y flows_example countFlows_def del: One_nat_def)
  then show ?thesis by (simp add: y flows_example countFlows_def del: One_nat_def)
qed

lemma ytd_aux:
  assumes "i < 12" "startingCapital (computedData calc e ! i) \<noteq> 0"
  shows "cagr (computedData calc e ! i) =
     calc (mkDate (selectedYear e) 0 1) (yearlyStartingCapital e)
          (mkDate (selectedYear e) (int i) 1) (finalCapital (computedData calc e ! i))
          (flowsUpTo e (mkDate (selectedYear e) (int i) 1))"
  using assms
  by (simp add: computedData_nth cagr_row computedRow_keeps month_initialRow indexOf_monthOrder
        relevantChanges_flowsUpTo)

lemma latest_render:
  "monthlyCapital (render latestSession s) = []"
  "selectedYear (render latestSession s) = 2024"
  "s_year latestSession = 2024"
  "s_latest latestSession s = sizes s ''Dec'' 2024"
  by (simp_all add: render_def latestSession_def exampleSession_def)

lemma latest_start:
  "i < 12 \<Longrightarrow> startingCapital (computedData calc (render latestSession s) ! i)
      = sizes s (monthOrder ! i) 2024"
  by (simp add: computedData_nth computedRow_keeps startingCapital_initialRow
        monthCapitalOf_no_records latest_render emptyMonthCapital_def render_fields)

lemma latest_jan:
  "startingCapital (computedData calc (render latestSession decLedger) ! 0) = 10000"
  by (simp add: latest_start monthOrder_nth decLedger_def)

text \<open>
  Claim C6, as the code has it. For the row of month \<open>i\<close> of the selected year \<open>y\<close> with
  a starting capital other than 0, the year-to-date return is what the solver answers
  for the start date 1 January of \<open>y\<close>, the end date the first day of month \<open>i\<close> with the
  final capital of the row, and the signed capital changes of any year dated on or
  before the end date. The start value is the state \<^verbatim>\<open>yearlyStartingCapital\<close>, which the
  component fills from \<^verbatim>\<open>getLatestPortfolioSize()\<close>: the most recent portfolio size, the
  same whichever year is selected, not a size of the opening of \<open>y\<close>.
\<close>

theorem ytd_return:
  assumes "i < 12" "startingCapital (computedData calc (render ss s) ! i) \<noteq> 0"
  shows "cagr (computedData calc (render ss s) ! i) =
     calc (mkDate (s_year ss) 0 1) (s_latest ss s)
          (mkDate (s_year ss) (int i) 1) (finalCapital (computedData calc (render ss s) ! i))
          (flowsUpTo (render ss s) (mkDate (s_year ss) (int i) 1))
     \<and> yearlyStartingCapital (render (ss\<lparr>s_year := y\<rparr>) s) = s_latest ss s"
  using ytd_aux [OF assms] by (simp add: render_fields) (simp add: render_def)

text \<open>
  Claim C6, the theorem at the session whose latest portfolio size is the 9000 of
  December: the year-to-date series of January 2024 starts at 9000, and it would with
  2023 selected.
\<close>

theorem ytd_return_witness:
  "(0::nat) < 12
   \<and> startingCapital (computedData startValue (render latestSession decLedger) ! 0) \<noteq> 0
   \<and> cagr (computedData startValue (render latestSession decLedger) ! 0) = 9000
   \<and> yearlyStartingCapital (render (latestSession\<lparr>s_year := 2023\<rparr>) decLedger) = 9000"
  using ytd_return [of 0 startValue latestSession decLedger 2023]
  by (simp add: latest_jan latest_render) (simp add: startValue_def decLedger_def)

text \<open>
  Claim C6 as it is written fails in its start value: in that session the portfolio size
  of January 2024, which is also the starting capital of the January row, is 10000,
  while the year-to-date series of January starts at the latest portfolio size 9000.
  The stand-in solver answers its start value.
\<close>

theorem ytd_return_opening_counterexample:
  "cagr (computedData startValue (render latestSession decLedger) ! 0) = 9000
   \<and> getPortfolioSize (render latestSession decLedger) ''Jan'' 2024 = 10000
   \<and> startingCapital (computedData startValue (render latestSession decLedger) ! 0) = 10000
   \<and> cagr (computedData startValue (render latestSession decLedger) ! 0)
       \<noteq> startValue (mkDate 2024 0 1)
            (getPortfolioSize (render latestSession decLedger) ''Jan'' 2024)
            (mkDate 2024 0 1)
            (finalCapital (computedData startValue (render latestSession decLedger) ! 0))
            (flowsUpTo (render latestSession decLedger) (mkDate 2024 0 1))"
proof -
  have a: "cagr (computedData startValue (render latestSession decLedger) ! 0) = 9000"
    using ytd_aux [of 0 startValue "render latestSession decLedger"]
    by (simp add: latest_jan) (simp add: startValue_def render_def latestSession_def decLedger_def)
  have b: "getPortfolioSize (render latestSession decLedger) ''Jan'' 2024 = 10000"
    by (simp add: render_fields decLedger_def)
  show ?thesis
    by (simp add: a b latest_jan) (simp add: startValue_def)
qed

section \<open>What the rows depend on\<close>











section \<open>The handler, branch by branch\<close>

lemma handler_known_month:
  assumes "m \<in> set monthOrder"
  shows "handleSaveAddedWithdrawn calc e (Some v) (indexOf monthOrder m) m ya =
     (if startingCapital (computedData calc e ! nat (indexOf monthOrder m)) \<le> 0
      then Rejected startingCapitalAlert
      else
        (case find (inMonth (selectedYear e) (indexOf monthOrder m)) (capitalChanges e) of
           Some ex \<Rightarrow>
             Saved [SetPortfolioSize
                      (getPortfolioSize e m (selectedYear e) + (v - signedAmount ex)) m
                      (selectedYear e),
                    UpdateCapitalChange
                      (ex\<lparr>amount := \<bar>v\<bar>, ctype := (if v \<ge> 0 then deposit else withdrawal),
                          date := mkDate (selectedYear e) (indexOf monthOrder m) 1,
                          description := manualEdit\<rparr>)]
         | None \<Rightarrow>
             if v \<noteq> 0 then
               Saved [SetPortfolioSize (getPortfolioSize e m (selectedYear e) + v) m
                        (selectedYear e),
                      AddCapitalChange
                        \<lparr>amount = \<bar>v\<bar>, ctype = (if v \<ge> 0 then deposit else withdrawal),
                         date = mkDate (selectedYear e) (indexOf monthOrder m) 1,
                         description = manualEdit\<rparr>]
             else Saved []))"
proof -
  from assms have b: "0 \<le> indexOf monthOrder m" "indexOf monthOrder m < 12"
    using indexOf_monthOrder_bounds by auto
  then have n: "indexOf monthOrder m \<noteq> - 1" by simp
  show ?thesis
    unfolding handleSaveAddedWithdrawn_def
    by (simp add: n js_nth_computedData[OF b] Let_def split: option.splits)
qed

lemma handler_unknown_month:
  "m \<notin> set monthOrder \<Longrightarrow> handleSaveAddedWithdrawn calc e ev i m ya = Ignored"
  by (simp add: handleSaveAddedWithdrawn_def indexOf_absent Let_def split: option.splits)

text \<open>The branch that deletes the record is never taken: it is tried only when no
  record of the month exists.\<close>

lemma handler_never_deletes:
  "handleSaveAddedWithdrawn calc e ev rowIndex m ya = Saved effs \<Longrightarrow>
     DeleteCapitalChange i \<notin> set effs"
  by (auto simp: handleSaveAddedWithdrawn_def Let_def split: option.splits if_splits)

lemma setNetChange_unknown_month: "m \<notin> set monthOrder \<Longrightarrow> setNetChange calc ss s m v = s"
  by (simp add: setNetChange_def handler_unknown_month)

lemma setNetChange_rejected:
  assumes "m \<in> set monthOrder"
    and "startingCapital (computedData calc (render ss s) ! nat (indexOf monthOrder m)) \<le> 0"
  shows "setNetChange calc ss s m v = s"
  using assms by (simp add: setNetChange_def handler_known_month)

lemma setNetChange_update:
  assumes "m \<in> set monthOrder"
    and "\<not> startingCapital (computedData calc (render ss s) ! nat (indexOf monthOrder m)) \<le> 0"
    and "find (inMonth (s_year ss) (indexOf monthOrder m)) (store s) = Some ex"
  shows "setNetChange calc ss s m v =
     s\<lparr>sizes := setPortfolioSize (sizes s m (s_year ss) + (v - signedAmount ex)) m (s_year ss)
                 (sizes s),
       store := updateCapitalChange
                  (ex\<lparr>amount := \<bar>v\<bar>, ctype := (if v \<ge> 0 then deposit else withdrawal),
                      date := mkDate (s_year ss) (indexOf monthOrder m) 1,
                      description := manualEdit\<rparr>) (store s)\<rparr>"
  using assms by (simp add: setNetChange_def handler_known_month render_fields)

lemma setNetChange_add:
  assumes "m \<in> set monthOrder"
    and "\<not> startingCapital (computedData calc (render ss s) ! nat (indexOf monthOrder m)) \<le> 0"
    and "find (inMonth (s_year ss) (indexOf monthOrder m)) (store s) = None"
    and "v \<noteq> 0"
  shows "setNetChange calc ss s m v =
     s\<lparr>sizes := setPortfolioSize (sizes s m (s_year ss) + v) m (s_year ss) (sizes s),
       store := addCapitalChange (s_newId ss)
                  \<lparr>amount = \<bar>v\<bar>, ctype = (if v \<ge> 0 then deposit else withdrawal),
                   date = mkDate (s_year ss) (indexOf monthOrder m) 1,
                   description = manualEdit\<rparr> (store s)\<rparr>"
  using assms by (simp add: setNetChange_def handler_known_month render_fields)

lemma setNetChange_nothing:
  assumes "m \<in> set monthOrder"
    and "find (inMonth (s_year ss) (indexOf monthOrder m)) (store s) = None"
  shows "setNetChange calc ss s m 0 = s"
  using assms by (simp add: setNetChange_def handler_known_month render_fields)

section \<open>The store under update and add\<close>

lemma find_update:
  assumes "find P xs = Some ex" "P c" "c_id c = c_id ex"
  shows "find P (updateCapitalChange c xs) = Some c"
  using assms by (induction xs) (auto simp: updateCapitalChange_def split: if_splits)

lemma update_update: "updateCapitalChange c (updateCapitalChange c xs) = updateCapitalChange c xs"
  by (induction xs) (auto simp: updateCapitalChange_def)

lemma update_fresh:
  "c_id c \<notin> c_id ` set xs \<Longrightarrow> updateCapitalChange c (xs @ [c]) = xs @ [c]"
  by (induction xs) (auto simp: updateCapitalChange_def)

lemma find_append_new: "find P xs = None \<Longrightarrow> P c \<Longrightarrow> find P (xs @ [c]) = Some c"
  by (induction xs) (auto split: if_splits)

lemma signed_written:
  "signedAmount (c\<lparr>amount := \<bar>v\<bar>, ctype := (if v \<ge> 0 then deposit else withdrawal),
       date := d, description := t\<rparr>) = v"
  by (simp add: signedAmount_def)

lemma setPortfolioSize_same: "setPortfolioSize (f m y) m y f = f"
  by (simp add: setPortfolioSize_def)

section \<open>The ledger of the concrete session\<close>

lemma example_session_fields:
  "s_year exampleSession = 2024" "s_newId exampleSession = exampleNewId"
  by (simp_all add: exampleSession_def)

lemma example_session_render:
  "monthlyCapital (render exampleSession s) = []"
  "selectedYear (render exampleSession s) = 2024"
  by (simp_all add: render_def exampleSession_def)

lemma example_session_start:
  "i < 12 \<Longrightarrow> startingCapital (computedData calc (render exampleSession s) ! i)
      = sizes s (monthOrder ! i) 2024"
  by (simp add: computedData_nth computedRow_keeps startingCapital_initialRow
        monthCapitalOf_no_records example_session_render emptyMonthCapital_def render_fields
        example_session_fields)

lemma jan_known: "''Jan'' \<in> set monthOrder"
  by (simp add: monthOrder_def)

lemma first_edit:
  "setNetChange calc exampleSession exampleLedger ''Jan'' 500 = afterFirstEdit"
proof -
  have a: "\<not> startingCapital (computedData calc (render exampleSession exampleLedger)
              ! nat (indexOf monthOrder ''Jan'')) \<le> 0"
    by (simp add: indexOf_names example_session_start monthOrder_nth exampleLedger_def)
  have f: "find (inMonth (s_year exampleSession) (indexOf monthOrder ''Jan''))
             (store exampleLedger) = None"
    by (simp add: exampleLedger_def)
  show ?thesis
    using setNetChange_add [OF jan_known a f, of 500]
    by (simp add: example_session_fields indexOf_names mkDate_def addCapitalChange_def
          exampleNewId_def exampleLedger_def jan500_def afterFirstEdit_def)
qed

lemma second_edit_accepted:
  "\<not> startingCapital (computedData calc (render exampleSession afterFirstEdit)
        ! nat (indexOf monthOrder ''Jan'')) \<le> 0"
  by (simp add: indexOf_names example_session_start monthOrder_nth setPortfolioSize_def
        afterFirstEdit_def)

lemma second_edit_finds:
  "find (inMonth (s_year exampleSession) (indexOf monthOrder ''Jan'')) (store afterFirstEdit)
     = Some jan500"
  by (simp add: example_session_fields indexOf_names inMonth_def jan500_def afterFirstEdit_def)

section \<open>Rejection without a starting capital\<close>

text \<open>
  Claim C2. For every month of the table, every year argument and every numeric value:
  when the starting capital of the month's row is not positive, the handler ends with
  the alert that asks for the starting capital and makes no call on the store or on the
  portfolio sizes, so the edit leaves the ledger as it was. (A text that is not a number
  ends the handler before this test, silently and also without any call.)
\<close>

theorem net_change_rejected:
  assumes "m \<in> set monthOrder"
    and "startingCapital (computedData calc (render ss s) ! nat (indexOf monthOrder m)) \<le> 0"
  shows "handleSaveAddedWithdrawn calc (render ss s) (Some v) (indexOf monthOrder m) m yearArg
           = Rejected startingCapitalAlert
         \<and> startingCapitalAlert \<noteq> []
         \<and> setNetChange calc ss s m v = s"
  using assms
  by (simp add: handler_known_month setNetChange_rejected startingCapitalAlert_def)

text \<open>Claim C2, the theorem at a ledger whose portfolio size is 0 for every month.\<close>

theorem net_change_rejected_witness:
  "''Jan'' \<in> set monthOrder
   \<and> startingCapital (computedData countFlows (render exampleSession emptyLedger)
        ! nat (indexOf monthOrder ''Jan'')) \<le> 0
   \<and> handleSaveAddedWithdrawn countFlows (render exampleSession emptyLedger) (Some 500)
        (indexOf monthOrder ''Jan'') ''Jan'' 2024 = Rejected startingCapitalAlert
   \<and> setNetChange countFlows exampleSession emptyLedger ''Jan'' 500 = emptyLedger"
proof -
  have a: "startingCapital (computedData countFlows (render exampleSession emptyLedger)
              ! nat (indexOf monthOrder ''Jan'')) \<le> 0"
    by (simp add: indexOf_names example_session_start monthOrder_nth emptyLedger_def)
  show ?thesis
    using net_change_rejected [OF jan_known a, of 500 2024] a jan_known by simp
qed

section \<open>Setting a net change back to zero\<close>

text \<open>
  Claim C3 at a concrete input: the ledger starts with an empty store and a portfolio
  size of 10000; January 2024 is set to 500 and then to 0. The portfolio size of January
  is 10000 again, but the store still holds the record of January, now with the amount
  0: the handler updates the record where the claim has it removed.
\<close>

theorem zero_edit_keeps_record:
  "store (setNetChange countFlows exampleSession
            (setNetChange countFlows exampleSession exampleLedger ''Jan'' 500) ''Jan'' 0)
     = [jan500\<lparr>amount := 0\<rparr>]
   \<and> sizes (setNetChange countFlows exampleSession
            (setNetChange countFlows exampleSession exampleLedger ''Jan'' 500) ''Jan'' 0)
        ''Jan'' 2024 = 10000"
  unfolding first_edit
  using setNetChange_update [OF jan_known second_edit_accepted second_edit_finds, of countFlows 0]
  by (simp add: example_session_fields indexOf_names mkDate_def updateCapitalChange_def
        setPortfolioSize_def signedAmount_def jan500_def afterFirstEdit_def)

section \<open>Saving the same value twice\<close>

lemma idempotent_aux:
  assumes fresh: "s_newId ss (store s) \<notin> c_id ` set (store s)"
  shows "setNetChange calc ss (setNetChange calc ss s m v) m v = setNetChange calc ss s m v"
proof (cases "m \<in> set monthOrder")
  case False
  then show ?thesis by (simp add: setNetChange_unknown_month)
next
  case known: True
  let ?i = "indexOf monthOrder m"
  let ?y = "s_year ss"
  let ?s1 = "setNetChange calc ss s m v"
  from known have b: "0 \<le> ?i" "?i < 12" using indexOf_monthOrder_bounds by auto
  have d: "mkDate ?y ?i 1 = \<lparr>d_year = ?y, d_month = ?i, d_day = 1, d_ms = 0\<rparr>"
    using b by (rule mkDate_first)
  show ?thesis
  proof (cases "startingCapital (computedData calc (render ss s) ! nat ?i) \<le> 0")
    case True
    then have "?s1 = s" using known by (simp add: setNetChange_rejected)
    then show ?thesis by simp
  next
    case acc: False
    show ?thesis
    proof (cases "startingCapital (computedData calc (render ss ?s1) ! nat ?i) \<le> 0")
      case True
      then show ?thesis using known by (simp add: setNetChange_rejected)
    next
      case acc1: False
      show ?thesis
      proof (cases "find (inMonth ?y ?i) (store s)")
        case None
        show ?thesis
        proof (cases "v = 0")
          case True
          then have "?s1 = s" using known None by (simp add: setNetChange_nothing)
          then show ?thesis by simp
        next
          case nz: False
          let ?c = "\<lparr>amount = \<bar>v\<bar>, ctype = (if v \<ge> 0 then deposit else withdrawal),
                      date = mkDate ?y ?i 1, description = manualEdit,
                      c_id = s_newId ss (store s)\<rparr>"
          have s1: "?s1 = s\<lparr>sizes := setPortfolioSize (sizes s m ?y + v) m ?y (sizes s),
                             store := store s @ [?c]\<rparr>"
            using known acc None nz by (simp add: setNetChange_add addCapitalChange_def)
          have inm: "inMonth ?y ?i ?c" by (simp add: inMonth_def d)
          have f1: "find (inMonth ?y ?i) (store ?s1) = Some ?c"
            using None inm by (simp add: s1 find_append_new)
          have sg: "signedAmount ?c = v" by (simp add: signedAmount_def)
          have same: "?c\<lparr>amount := \<bar>v\<bar>, ctype := (if v \<ge> 0 then deposit else withdrawal),
                      date := mkDate ?y ?i 1, description := manualEdit\<rparr> = ?c" by simp
          have "setNetChange calc ss ?s1 m v =
              ?s1\<lparr>sizes := setPortfolioSize (sizes ?s1 m ?y + (v - signedAmount ?c)) m ?y
                            (sizes ?s1),
                   store := updateCapitalChange ?c (store ?s1)\<rparr>"
            using setNetChange_update [OF known acc1 f1, of v] unfolding same .
          also have "\<dots> = ?s1"
            using fresh by (simp add: sg setPortfolioSize_same) (simp add: s1 update_fresh)
          finally show ?thesis .
        qed
      next
        case (Some ex)
        let ?c = "ex\<lparr>amount := \<bar>v\<bar>, ctype := (if v \<ge> 0 then deposit else withdrawal),
                      date := mkDate ?y ?i 1, description := manualEdit\<rparr>"
        have s1: "?s1 = s\<lparr>sizes := setPortfolioSize (sizes s m ?y + (v - signedAmount ex)) m ?y
                                      (sizes s),
                           store := updateCapitalChange ?c (store s)\<rparr>"
          using known acc Some by (rule setNetChange_update)
        have inm: "inMonth ?y ?i ?c" by (simp add: inMonth_def d)
        have f1: "find (inMonth ?y ?i) (store ?s1) = Some ?c"
          using Some inm by (simp add: s1 find_update)
        have sg: "signedAmount ?c = v" by (rule signed_written)
        have same: "?c\<lparr>amount := \<bar>v\<bar>, ctype := (if v \<ge> 0 then deposit else withdrawal),
                      date := mkDate ?y ?i 1, description := manualEdit\<rparr> = ?c" by simp
        have "setNetChange calc ss ?s1 m v =
            ?s1\<lparr>sizes := setPortfolioSize (sizes ?s1 m ?y + (v - signedAmount ?c)) m ?y
                          (sizes ?s1),
                 store := updateCapitalChange ?c (store ?s1)\<rparr>"
          using setNetChange_update [OF known acc1 f1, of v] unfolding same .
        also have "\<dots> = ?s1"
          by (simp add: sg setPortfolioSize_same) (simp add: s1 update_update)
        finally show ?thesis .
      qed
    qed
  qed
qed

text \<open>
  Claim C4. For every month, selected year and value, saving the value a second time
  leaves the store and the portfolio sizes as the first save left them, provided that
  the identifier the store gives to an added record is not that of a record it already
  holds.
\<close>

theorem setNetChange_idempotent:
  assumes "s_newId ss (store s) \<notin> c_id ` set (store s)"
  shows "setNetChange calc ss (setNetChange calc ss s m v) m v = setNetChange calc ss s m v"
  using assms by (rule idempotent_aux)

text \<open>Claim C4, the theorem at the concrete session: January 2024 saved as 500 twice.\<close>

theorem setNetChange_idempotent_witness:
  "s_newId exampleSession (store exampleLedger) \<notin> c_id ` set (store exampleLedger)
   \<and> setNetChange countFlows exampleSession
        (setNetChange countFlows exampleSession exampleLedger ''Jan'' 500) ''Jan'' 500
      = \<lparr>store = [jan500], sizes = setPortfolioSize 10500 ''Jan'' 2024 (\<lambda>m y. 10000)\<rparr>"
proof -
  have h: "s_newId exampleSession (store exampleLedger) \<notin> c_id ` set (store exampleLedger)"
    by (simp add: exampleLedger_def)
  show ?thesis
    using setNetChange_idempotent [OF h, of countFlows "''Jan''" 500] h
    by (simp add: first_edit) (simp add: afterFirstEdit_def)
qed

section \<open>The date of an edited capital change\<close>

text \<open>
  Claim C10. Whenever the handler accepts an edit, the record it adds or updates is
  dated the first day, at midnight, of the edited month in the selected year (the year
  argument of the handler is replaced by the selected year).
\<close>

theorem edit_dated_first_of_month:
  assumes "handleSaveAddedWithdrawn calc e ev rowIndex m yearArg = Saved effs"
  shows "(\<forall>c. AddCapitalChange c \<in> set effs \<longrightarrow>
            date c = \<lparr>d_year = selectedYear e, d_month = indexOf monthOrder m,
                      d_day = 1, d_ms = 0\<rparr>)
       \<and> (\<forall>c. UpdateCapitalChange c \<in> set effs \<longrightarrow>
            date c = \<lparr>d_year = selectedYear e, d_month = indexOf monthOrder m,
                      d_day = 1, d_ms = 0\<rparr>)"
proof (cases "m \<in> set monthOrder")
  case False
  then show ?thesis using assms by (simp add: handler_unknown_month)
next
  case True
  then have b: "0 \<le> indexOf monthOrder m" "indexOf monthOrder m < 12"
    using indexOf_monthOrder_bounds by auto
  note d = mkDate_first [OF b]
  from assms show ?thesis
    by (auto simp: handleSaveAddedWithdrawn_def Let_def d split: option.splits if_splits)
qed

text \<open>
  Claim C10, the theorem at the concrete session: an edit of January to 500, called
  with the year argument 2023 while 2024 is selected, adds a record dated 1 January
  2024; a following edit to 0 updates that record and keeps the date.
\<close>

theorem edit_dated_first_of_month_witness:
  "handleSaveAddedWithdrawn countFlows (render exampleSession exampleLedger) (Some 500) 0
       ''Jan'' 2023
     = Saved [SetPortfolioSize 10500 ''Jan'' 2024,
              AddCapitalChange \<lparr>amount = 500, ctype = deposit,
                 date = \<lparr>d_year = 2024, d_month = 0, d_day = 1, d_ms = 0\<rparr>,
                 description = manualEdit\<rparr>]
   \<and> date \<lparr>amount = 500, ctype = deposit,
             date = \<lparr>d_year = 2024, d_month = 0, d_day = 1, d_ms = 0\<rparr>,
             description = manualEdit\<rparr>
       = \<lparr>d_year = selectedYear (render exampleSession exampleLedger),
          d_month = indexOf monthOrder ''Jan'', d_day = 1, d_ms = 0\<rparr>
   \<and> handleSaveAddedWithdrawn countFlows (render exampleSession afterFirstEdit) (Some 0) 0
       ''Jan'' 2023
     = Saved [SetPortfolioSize 10000 ''Jan'' 2024, UpdateCapitalChange (jan500\<lparr>amount := 0\<rparr>)]
   \<and> date (jan500\<lparr>amount := 0\<rparr>)
       = \<lparr>d_year = selectedYear (render exampleSession afterFirstEdit),
          d_month = indexOf monthOrder ''Jan'', d_day = 1, d_ms = 0\<rparr>"
proof -
  have a: "\<not> startingCapital (computedData countFlows (render exampleSession exampleLedger)
              ! nat (indexOf monthOrder ''Jan'')) \<le> 0"
    by (simp add: indexOf_names example_session_start monthOrder_nth exampleLedger_def)
  have h1: "handleSaveAddedWithdrawn countFlows (render exampleSession exampleLedger) (Some 500) 0
       ''Jan'' 2023
     = Saved [SetPortfolioSize 10500 ''Jan'' 2024,
              AddCapitalChange \<lparr>amount = 500, ctype = deposit,
                 date = \<lparr>d_year = 2024, d_month = 0, d_day = 1, d_ms = 0\<rparr>,
                 description = manualEdit\<rparr>]"
    using handler_known_month [OF jan_known, of countFlows "render exampleSession exampleLedger"
            500 2023] a
    by (simp add: indexOf_names render_fields example_session_fields exampleLedger_def mkDate_def)
  have h2: "handleSaveAddedWithdrawn countFlows (render exampleSession afterFirstEdit) (Some 0) 0
       ''Jan'' 2023
     = Saved [SetPortfolioSize 10000 ''Jan'' 2024, UpdateCapitalChange (jan500\<lparr>amount := 0\<rparr>)]"
    using handler_known_month [OF jan_known, of countFlows "render exampleSession afterFirstEdit"
            0 2023] second_edit_accepted [of countFlows] second_edit_finds
    by (simp add: indexOf_names render_fields example_session_fields mkDate_def)
       (simp add: afterFirstEdit_def setPortfolioSize_def signedAmount_def jan500_def)
  show ?thesis
    using edit_dated_first_of_month [OF h1] edit_dated_first_of_month [OF h2] h1 h2 by simp
qed

section \<open>The solver on two events\<close>

lemma newton_bound:
  "newton p cf n r \<noteq> 0 \<Longrightarrow>
     \<bar>npv cf (newton p cf n r)\<bar> < max (tolerance p) (relaxedTolerance p)"
  by (induction n arbitrary: r) (auto split: if_splits)

lemma solver_bound:
  "XIRRSolver p cf \<noteq> 0 \<Longrightarrow>
     \<bar>npv cf (XIRRSolver p cf)\<bar> < max (tolerance p) (relaxedTolerance p)"
  by (auto simp: XIRRSolver_def newton_bound split: if_splits)

text \<open>The net present value of the two events and its derivative, in closed form.\<close>

lemma npv_two: "- 1 < r \<Longrightarrow> npv twoEvents r = - 1000 + 1100 / (1 + r)"
  by (simp add: npv_def twoEvents_def)

lemma deriv_two: "- 1 < r \<Longrightarrow> npvDerivative twoEvents r = - 1100 / (1 + r)\<^sup>2"
proof -
  assume a: "- 1 < r"
  then have p: "0 < 1 + r" by simp
  have "(1 + r) powr 2 = (1 + r)\<^sup>2" using p by (simp add: powr_numeral)
  then show ?thesis by (simp add: npvDerivative_def twoEvents_def)
qed

text \<open>One step of the iteration squares the distance to the root 0.1.\<close>

lemma newton_step_two:
  assumes "- 1 < r"
  shows "r - npv twoEvents r / npvDerivative twoEvents r - 1 / 10 = - (10 / 11) * (r - 1 / 10)\<^sup>2"
proof -
  from assms have p: "1 + r \<noteq> 0" by simp
  show ?thesis
    unfolding npv_two[OF assms] deriv_two[OF assms]
    using p by (simp add: field_simps power2_eq_square)
qed

lemma half_range:
  assumes "\<bar>r - 1 / 10\<bar> \<le> 1 / (2::real)"
  shows "- 1 < r" "6 / 10 \<le> 1 + r" "1 + r \<le> 16 / 10"
  using assms by linarith+

lemma near_root_small_npv:
  assumes "\<bar>r - 1 / 10\<bar> \<le> 1 / 2" "\<bar>r - 1 / 10\<bar> \<le> t / 2000" "0 < t"
  shows "\<bar>npv twoEvents r\<bar> < t"
proof -
  from assms(1) have r: "- 1 < r" and d: "6 / 10 \<le> 1 + r" by (rule half_range)+
  then have p: "0 < 1 + r" by simp
  have eq: "npv twoEvents r = - 1000 * (r - 1 / 10) / (1 + r)"
    unfolding npv_two[OF r] using p by (simp add: field_simps)
  have "\<bar>npv twoEvents r\<bar> = \<bar>- 1000\<bar> * \<bar>r - 1 / 10\<bar> / \<bar>1 + r\<bar>"
    unfolding eq by (simp only: abs_mult abs_divide)
  also have "\<dots> = 1000 * \<bar>r - 1 / 10\<bar> / (1 + r)"
    using p by simp
  finally have "\<bar>npv twoEvents r\<bar> = 1000 * \<bar>r - 1 / 10\<bar> / (1 + r)" .
  also have "\<dots> \<le> (t / 2) / (1 + r)"
  proof -
    have "1000 * \<bar>r - 1 / 10\<bar> \<le> t / 2" using assms(2) by simp
    then show ?thesis using p by (intro divide_right_mono) auto
  qed
  also have "\<dots> \<le> (t / 2) / (6 / 10)"
    using d assms(3) by (intro divide_left_mono) auto
  also have "\<dots> < t" using assms(3) by simp
  finally show ?thesis .
qed

lemma small_npv_near_root:
  assumes "\<bar>r - 1 / 10\<bar> \<le> 1 / 2" "\<bar>npv twoEvents r\<bar> < 1 / 100"
  shows "\<bar>r - 1 / 10\<bar> < 1 / 10000"
proof -
  from assms(1) have r: "- 1 < r" and d: "6 / 10 \<le> 1 + r" "1 + r \<le> 16 / 10"
    by (rule half_range)+
  then have p: "0 < 1 + r" by simp
  have eq: "npv twoEvents r * (1 + r) = - 1000 * (r - 1 / 10)"
    unfolding npv_two[OF r] using p by (simp add: field_simps)
  have "\<bar>npv twoEvents r * (1 + r)\<bar> = \<bar>- 1000 * (r - 1 / 10)\<bar>"
    by (simp only: eq)
  then have "\<bar>npv twoEvents r\<bar> * \<bar>1 + r\<bar> = \<bar>- 1000\<bar> * \<bar>r - 1 / 10\<bar>"
    by (simp only: abs_mult)
  then have "1000 * \<bar>r - 1 / 10\<bar> = \<bar>npv twoEvents r\<bar> * (1 + r)"
    using p by simp
  also have "\<dots> \<le> \<bar>npv twoEvents r\<bar> * (16 / 10)"
    using d by (intro mult_left_mono) auto
  also have "\<dots> < (1 / 100) * (16 / 10)"
    using assms(2) by simp
  finally show ?thesis by simp
qed

lemma derivative_large:
  assumes "\<bar>r - 1 / 10\<bar> \<le> 1 / 2"
  shows "1 < \<bar>npvDerivative twoEvents r\<bar>"
proof -
  from assms have r: "- 1 < r" and d: "6 / 10 \<le> 1 + r" "1 + r \<le> 16 / 10"
    by (rule half_range)+
  then have p: "0 < 1 + r" by simp
  have "(1 + r)\<^sup>2 \<le> (16 / 10)\<^sup>2" using d p by (intro power_mono) auto
  then have "(1 + r)\<^sup>2 < 1100" by (simp add: power2_eq_square)
  moreover have "0 < (1 + r)\<^sup>2" using p by simp
  ultimately have "1 < 1100 / (1 + r)\<^sup>2" by (simp add: field_simps)
  then show ?thesis unfolding deriv_two[OF r] by simp
qed

lemma newton_step_closer:
  assumes "\<bar>r - 1 / 10\<bar> \<le> 1 / 2"
  shows "\<bar>r - npv twoEvents r / npvDerivative twoEvents r - 1 / 10\<bar> \<le> \<bar>r - 1 / 10\<bar> / 2"
proof -
  from assms have r: "- 1 < r" by (rule half_range)
  have "\<bar>r - npv twoEvents r / npvDerivative twoEvents r - 1 / 10\<bar>
        = (10 / 11) * (\<bar>r - 1 / 10\<bar> * \<bar>r - 1 / 10\<bar>)"
    unfolding newton_step_two[OF r] by (simp add: abs_mult power2_eq_square)
  also have "\<dots> \<le> (10 / 11) * (\<bar>r - 1 / 10\<bar> * (1 / 2))"
    using assms by (intro mult_left_mono) auto
  also have "\<dots> \<le> \<bar>r - 1 / 10\<bar> / 2" by simp
  finally show ?thesis .
qed

text \<open>From an estimate within 0.5 of the root, \<open>n\<close> steps are enough when the distance
  is at most \<open>2 ^ n\<close> times the distance at which the tolerance test passes: every step
  at least halves it.\<close>

lemma newton_converges:
  assumes tol: "0 < tolerance p" "tolerance p \<le> 1 / 100" and fl: "derivativeFloor p \<le> 1"
  shows "\<bar>r - 1 / 10\<bar> \<le> 1 / 2 \<Longrightarrow> \<bar>r - 1 / 10\<bar> \<le> 2 ^ n * (tolerance p / 2000)
     \<Longrightarrow> \<bar>newton p twoEvents n r - 1 / 10\<bar> < 1 / 10000"
proof (induction n arbitrary: r)
  case 0
  then have "\<bar>npv twoEvents r\<bar> < tolerance p"
    using near_root_small_npv [of r "tolerance p"] tol by simp
  moreover have "- 1 < r" using 0(1) by (rule half_range)
  moreover have "\<bar>r - 1 / 10\<bar> < 1 / 10000" using 0(2) tol by simp
  ultimately show ?case by simp
next
  case (Suc n)
  have r: "- 1 < r" using Suc.prems(1) by (rule half_range)
  show ?case
  proof (cases "\<bar>npv twoEvents r\<bar> < tolerance p")
    case True
    then have "\<bar>npv twoEvents r\<bar> < 1 / 100" using tol by simp
    then have "\<bar>r - 1 / 10\<bar> < 1 / 10000"
      using Suc.prems(1) by (rule small_npv_near_root[rotated])
    then show ?thesis using True r by simp
  next
    case False
    let ?r' = "r - npv twoEvents r / npvDerivative twoEvents r"
    have dl: "\<not> \<bar>npvDerivative twoEvents r\<bar> < derivativeFloor p"
      using derivative_large [OF Suc.prems(1)] fl by simp
    have c: "\<bar>?r' - 1 / 10\<bar> \<le> \<bar>r - 1 / 10\<bar> / 2"
      using Suc.prems(1) by (rule newton_step_closer)
    then have a: "\<bar>?r' - 1 / 10\<bar> \<le> 1 / 2" using Suc.prems(1) by simp
    have "\<bar>r - 1 / 10\<bar> / 2 \<le> 2 ^ n * (tolerance p / 2000)"
      using Suc.prems(2) by (simp add: mult.commute)
    with c have b: "\<bar>?r' - 1 / 10\<bar> \<le> 2 ^ n * (tolerance p / 2000)" by linarith
    have "newton p twoEvents (Suc n) r = newton p twoEvents n ?r'"
      using False dl r by simp
    then show ?thesis using Suc.IH [OF a b] by simp
  qed
qed

lemma solver_two_events_aux:
  assumes "\<bar>guess p - 1 / 10\<bar> \<le> 1 / 2" "0 < tolerance p" "tolerance p \<le> 1 / 100"
    "derivativeFloor p \<le> 1" "1000 \<le> 2 ^ maxIterations p * tolerance p"
  shows "\<bar>XIRRSolver p twoEvents - 1 / 10\<bar> < 1 / 10000"
proof -
  have "\<bar>guess p - 1 / 10\<bar> \<le> 2 ^ maxIterations p * (tolerance p / 2000)"
    using assms(1,5) by simp
  then have "\<bar>newton p twoEvents (maxIterations p) (guess p) - 1 / 10\<bar> < 1 / 10000"
    using newton_converges [OF assms(2,3,4) assms(1)] by simp
  moreover have "XIRRSolver p twoEvents = newton p twoEvents (maxIterations p) (guess p)"
    by (simp add: XIRRSolver_def twoEvents_def)
  ultimately show ?thesis by simp
qed

text \<open>
  Claim C9, on the solver of the specification. The series of -1000 on day 0 and 1100
  on day 365 solves to a rate within 1e-4 of 0.10 from every initial guess within 0.5 of
  0.1, for every tolerance that is positive and at most 0.01, every derivative floor of
  at most 1 and every number \<open>n\<close> of iterations with \<open>2 ^ n\<close> times the tolerance at
  least 1000; the guess 0.1, the tolerance 1e-6 and the 100 iterations that the
  specification names are among them. For every series, a rate other than 0 that the
  solver returns has a net present value below the tolerance or, when the iterations
  are used up, below the relaxed tolerance. The rate 0, which the solver returns for a
  series it cannot solve, is under no such bound.
\<close>

theorem solver_two_events:
  assumes "\<bar>guess p - 1 / 10\<bar> \<le> 1 / 2" "0 < tolerance p" "tolerance p \<le> 1 / 100"
    "derivativeFloor p \<le> 1" "1000 \<le> 2 ^ maxIterations p * tolerance p"
  shows "\<bar>XIRRSolver p twoEvents - 1 / 10\<bar> < 1 / 10000
       \<and> (\<forall>cf. XIRRSolver p cf \<noteq> 0 \<longrightarrow>
            \<bar>npv cf (XIRRSolver p cf)\<bar> < max (tolerance p) (relaxedTolerance p))"
  using solver_two_events_aux [OF assms] by (simp add: solver_bound)

text \<open>
  Claim C9, the theorem at the parameters the specification names and at the same
  parameters with the guess 0, from which the first test of the iteration fails (the net
  present value at the rate 0 is 100) and the solver has to iterate.
\<close>

theorem solver_two_events_witness:
  "\<bar>guess coldParams - 1 / 10\<bar> \<le> 1 / 2 \<and> 0 < tolerance coldParams
   \<and> tolerance coldParams \<le> 1 / 100 \<and> derivativeFloor coldParams \<le> 1
   \<and> 1000 \<le> 2 ^ maxIterations coldParams * tolerance coldParams
   \<and> \<not> \<bar>npv twoEvents (guess coldParams)\<bar> < tolerance coldParams
   \<and> \<bar>XIRRSolver coldParams twoEvents - 1 / 10\<bar> < 1 / 10000
   \<and> \<bar>npv twoEvents (XIRRSolver coldParams twoEvents)\<bar> < 1 / 1000
   \<and> \<bar>guess specParams - 1 / 10\<bar> \<le> 1 / 2
   \<and> \<bar>XIRRSolver specParams twoEvents - 1 / 10\<bar> < 1 / 10000"
proof -
  have h: "\<bar>guess coldParams - 1 / 10\<bar> \<le> 1 / 2" "0 < tolerance coldParams"
    "tolerance coldParams \<le> 1 / 100" "derivativeFloor coldParams \<le> 1"
    "1000 \<le> 2 ^ maxIterations coldParams * tolerance coldParams"
    by (simp_all add: coldParams_def specParams_def)
  have h': "\<bar>guess specParams - 1 / 10\<bar> \<le> 1 / 2" "0 < tolerance specParams"
    "tolerance specParams \<le> 1 / 100" "derivativeFloor specParams \<le> 1"
    "1000 \<le> 2 ^ maxIterations specParams * tolerance specParams"
    by (simp_all add: specParams_def)
  have m: "max (tolerance coldParams) (relaxedTolerance coldParams) = 1 / 1000"
    by (simp add: coldParams_def specParams_def)
  have far: "\<not> \<bar>npv twoEvents (guess coldParams)\<bar> < tolerance coldParams"
    by (simp add: coldParams_def specParams_def npv_two)
  note c = solver_two_events [OF h]
  note s = solver_two_events [OF h']
  from c have c1: "\<bar>XIRRSolver coldParams twoEvents - 1 / 10\<bar> < 1 / 10000" by blast
  then have nz: "XIRRSolver coldParams twoEvents \<noteq> 0" by auto
  from c nz have c2: "\<bar>npv twoEvents (XIRRSolver coldParams twoEvents)\<bar>
      < max (tolerance coldParams) (relaxedTolerance coldParams)" by blast
  from s have s1: "\<bar>XIRRSolver specParams twoEvents - 1 / 10\<bar> < 1 / 10000" by blast
  from h h' far c1 c2 s1 m show ?thesis by simp
qed

text \<open>
  Claim C9 as it is written fails in its general half: for the series of 1000 on day 0
  and 1100 on day 365, whose amounts are all positive, the solver returns 0, and the net
  present value at the rate 0 is 2100.
\<close>

theorem solver_degenerate_counterexample:
  "XIRRSolver specParams allPositive = 0
   \<and> npv allPositive (XIRRSolver specParams allPositive) = 2100"
proof -
  have a: "XIRRSolver specParams allPositive = 0"
    by (simp add: XIRRSolver_def allPositive_def)
  show ?thesis unfolding a by (simp add: a npv_def allPositive_def)
qed

end
